theory Spec2Isabelle
  imports Complex_Main
begin

section \<open>Python values and exceptions\<close>

text \<open>
  The pipeline of the repository is \<^verbatim>\<open>analyze\<close> (core/analyzer.py) followed by
  \<^verbatim>\<open>score\<close> (core/scorer.py), both built on the helpers of utils/utils.py.
  Python numbers (\<^verbatim>\<open>int\<close> and \<^verbatim>\<open>float\<close>) are embedded into the reals: \<^verbatim>\<open>/\<close> is
  true division, \<^verbatim>\<open>math.log1p x\<close> is \<open>ln (1 + x)\<close>, and rounding is not modelled.
  An exception that leaves a function is the \<open>Inl\<close> branch of its result.
\<close>

datatype py_error = TypeError | ValueError | ZeroDivisionError

definition ebind :: "py_error + 'a \<Rightarrow> ('a \<Rightarrow> py_error + 'b) \<Rightarrow> py_error + 'b" where
  "ebind r f = (case r of Inl e \<Rightarrow> Inl e | Inr v \<Rightarrow> f v)"

text \<open>\<^verbatim>\<open>d.get(key, default)\<close>: a dictionary entry is an option, \<open>None\<close> for an absent key.\<close>

definition dict_get :: "'a option \<Rightarrow> 'a \<Rightarrow> 'a" where
  "dict_get entry dflt = (case entry of None \<Rightarrow> dflt | Some v \<Rightarrow> v)"

text \<open>Truthiness of \<^verbatim>\<open>d.get(key)\<close> for a boolean entry: an absent key gives \<^verbatim>\<open>None\<close>, which is false.\<close>

definition truthy_bool :: "bool option \<Rightarrow> bool" where
  "truthy_bool entry = (entry = Some True)"

section \<open>utils/utils.py: numeric primitives\<close>

definition clamp :: "real \<Rightarrow> real \<Rightarrow> real \<Rightarrow> real" where
  "clamp v lo hi = max lo (min hi v)"

definition safe_divide :: "real \<Rightarrow> real \<Rightarrow> real \<Rightarrow> real" where
  "safe_divide numerator denominator dflt =
     (if denominator = 0 then dflt else numerator / denominator)"

text \<open>
  \<^verbatim>\<open>log_scale\<close> evaluates \<^verbatim>\<open>math.log1p(value) / math.log1p(scale) * 100\<close> from left to
  right once \<open>value > 0\<close>: \<^verbatim>\<open>math.log1p(scale)\<close> raises ValueError for \<open>scale \<le> -1\<close>, and
  the division raises ZeroDivisionError when \<^verbatim>\<open>math.log1p(scale)\<close> is zero, that is for
  \<open>scale = 0\<close>.
\<close>

definition log_scale :: "real \<Rightarrow> real \<Rightarrow> py_error + real" where
  "log_scale v scale =
     (if v \<le> 0 then Inr 0
      else if 1 + scale \<le> 0 then Inl ValueError
      else if ln (1 + scale) = 0 then Inl ZeroDivisionError
      else Inr (clamp (ln (1 + v) / ln (1 + scale) * 100) 0 100))"

section \<open>The metrics dictionary\<close>

text \<open>
  The dictionary built by \<^verbatim>\<open>analyze\<close> and read by \<^verbatim>\<open>score\<close>, one field per key. Every
  field is an option because the scorers read with \<^verbatim>\<open>m.get(key, default)\<close>.
\<close>

record metrics =
  username :: "string option"
  account_age_days :: "real option"
  account_age_years :: "real option"
  public_repos :: "real option"
  followers :: "real option"
  following :: "real option"
  has_blog :: "bool option"
  has_bio :: "bool option"
  hireable :: "bool option"
  total_repos :: "real option"
  total_stars :: "real option"
  total_forks_received :: "real option"
  total_watchers :: "real option"
  avg_repo_age_days :: "real option"
  languages :: "string list option"
  top_languages :: "string option"
  has_license_ratio :: "real option"
  forked_ratio :: "real option"
  original_repo_count :: "real option"
  language_count :: "real option"
  total_events :: "real option"
  push_events :: "real option"
  pr_events :: "real option"
  issue_events :: "real option"
  fork_events :: "real option"
  watch_events :: "real option"
  commit_count_90d :: "real option"
  active_days_90d :: "real option"
  events_last_30d :: "real option"
  events_30_90d :: "real option"
  most_active_period :: "string option"
  event_type_diversity :: "real option"
  collaboration_raw :: "real option"
  momentum_ratio :: "real option"

section \<open>config.py and core/scorer.py\<close>

record per_dimension =
  consistency :: real
  collaboration :: real
  depth :: real
  breadth :: real
  momentum :: real
  openness :: real

definition SCORE_WEIGHTS :: per_dimension where
  "SCORE_WEIGHTS = \<lparr>consistency = 0.20, collaboration = 0.20, depth = 0.20,
                    breadth = 0.15, momentum = 0.15, openness = 0.10\<rparr>"

definition UTOPIA_THRESHOLD :: real where
  "UTOPIA_THRESHOLD = 70"

definition DYSTOPIA_THRESHOLD :: real where
  "DYSTOPIA_THRESHOLD = 40"

record score_report =
  dimensions :: per_dimension
  overall_score :: real
  tendency :: string
  weights :: per_dimension

definition score_consistency :: "metrics \<Rightarrow> py_error + real" where
  "score_consistency m =
     (let active_days = dict_get (active_days_90d m) 0;
          commit_count = dict_get (commit_count_90d m) 0;
          account_age = dict_get (account_age_days m) 1;
          active_ratio = clamp (safe_divide active_days 90 0 * 100) 0 100
      in ebind (log_scale commit_count 50) (\<lambda>commit_score.
         ebind (log_scale (account_age / 365) 5) (\<lambda>age_scale.
           let longevity_bonus = clamp (age_scale * 0.2) 0 100
           in Inr (clamp (active_ratio * 0.5 + commit_score * 0.4 + longevity_bonus * 0.1)
                     0 100))))"

definition score_collaboration :: "metrics \<Rightarrow> py_error + real" where
  "score_collaboration m =
     ebind (log_scale (dict_get (pr_events m) 0) 20) (\<lambda>pr_score.
     ebind (log_scale (dict_get (issue_events m) 0) 30) (\<lambda>issue_score.
     ebind (log_scale (dict_get (fork_events m) 0) 10) (\<lambda>fork_score.
     ebind (log_scale (dict_get (followers m) 0) 100) (\<lambda>follower_score.
       Inr (clamp (pr_score * 0.40 + issue_score * 0.30 + fork_score * 0.15
                   + follower_score * 0.15) 0 100)))))"

definition score_depth :: "metrics \<Rightarrow> py_error + real" where
  "score_depth m =
     ebind (log_scale (dict_get (total_stars m) 0) 200) (\<lambda>star_score.
     ebind (log_scale (dict_get (total_forks_received m) 0) 50) (\<lambda>fork_score.
     ebind (log_scale (dict_get (avg_repo_age_days m) 0 / 30) 24) (\<lambda>age_score.
     ebind (log_scale (dict_get (original_repo_count m) 0) 30) (\<lambda>repo_score.
       Inr (clamp (star_score * 0.35 + fork_score * 0.25 + age_score * 0.20
                   + repo_score * 0.20) 0 100)))))"

definition score_breadth :: "metrics \<Rightarrow> py_error + real" where
  "score_breadth m =
     ebind (log_scale (dict_get (language_count m) 0) 10) (\<lambda>lang_score.
     ebind (log_scale (dict_get (event_type_diversity m) 0) 8) (\<lambda>diversity_score.
     ebind (log_scale (dict_get (total_repos m) 0) 50) (\<lambda>repo_breadth.
       Inr (clamp (lang_score * 0.50 + diversity_score * 0.30 + repo_breadth * 0.20)
              0 100))))"

definition score_momentum :: "metrics \<Rightarrow> py_error + real" where
  "score_momentum m =
     (let ratio = dict_get (momentum_ratio m) 0.0
      in ebind (log_scale (dict_get (events_last_30d m) 0) 60) (\<lambda>recent_activity.
           let ratio_score = clamp (min ratio 3.0 / 3.0 * 100) 0 100
           in Inr (clamp (ratio_score * 0.60 + recent_activity * 0.40) 0 100)))"

definition score_openness :: "metrics \<Rightarrow> real" where
  "score_openness m =
     (let license_score = dict_get (has_license_ratio m) 0.0 * 100;
          fork_openness = dict_get (forked_ratio m) 0.0 * 50;
          profile_score = (if truthy_bool (has_blog m) then 25 else 0)
                        + (if truthy_bool (has_bio m) then 25 else 0)
      in clamp (license_score * 0.40 + fork_openness * 0.30 + profile_score * 0.30) 0 100)"

definition classify_tendency :: "real \<Rightarrow> string" where
  "classify_tendency overall =
     (if overall \<ge> UTOPIA_THRESHOLD then ''Utopia''
      else if overall \<le> DYSTOPIA_THRESHOLD then ''Dystopia''
      else ''Unexpected'')"

text \<open>
  \<^verbatim>\<open>score\<close>: the six scorers run in the order of the dictionary literal; the overall
  score is Python's \<^verbatim>\<open>sum\<close> (starting from 0) over \<^verbatim>\<open>SCORE_WEIGHTS.items()\<close>, in the
  order of that dictionary, then clamped.
\<close>

definition score :: "metrics \<Rightarrow> py_error + score_report" where
  "score m =
     ebind (score_consistency m) (\<lambda>c.
     ebind (score_collaboration m) (\<lambda>co.
     ebind (score_depth m) (\<lambda>d.
     ebind (score_breadth m) (\<lambda>b.
     ebind (score_momentum m) (\<lambda>mo.
       let dims = \<lparr>consistency = c, collaboration = co, depth = d, breadth = b,
                   momentum = mo, openness = score_openness m\<rparr>;
           total = 0 + consistency dims * consistency SCORE_WEIGHTS
                     + collaboration dims * collaboration SCORE_WEIGHTS
                     + depth dims * depth SCORE_WEIGHTS
                     + breadth dims * breadth SCORE_WEIGHTS
                     + momentum dims * momentum SCORE_WEIGHTS
                     + openness dims * openness SCORE_WEIGHTS;
           overall = clamp total 0 100
       in Inr \<lparr>dimensions = dims, overall_score = overall,
               tendency = classify_tendency overall, weights = SCORE_WEIGHTS\<rparr>)))))"

section \<open>Raw GitHub records\<close>

text \<open>
  A date string is represented by what \<^verbatim>\<open>datetime.fromisoformat\<close> makes of it after
  \<^verbatim>\<open>.replace("Z", "+00:00")\<close>: the empty string and any other text that does not parse
  (both raise ValueError), a timestamp without UTC offset (a naive datetime, given by its
  wall-clock seconds), or a timestamp with an offset (an aware datetime, given by its
  POSIX time and its offset, both in seconds). The empty string is kept apart because the
  code tests strings for truthiness.
\<close>

datatype date_str = EmptyStr | Garbage | NaiveStamp real | AwareStamp real real

datatype datetime = Naive real | Aware real real

definition fromisoformat :: "date_str \<Rightarrow> py_error + datetime" where
  "fromisoformat s =
     (case s of
        EmptyStr \<Rightarrow> Inl ValueError
      | Garbage \<Rightarrow> Inl ValueError
      | NaiveStamp w \<Rightarrow> Inr (Naive w)
      | AwareStamp t off \<Rightarrow> Inr (Aware t off))"

text \<open>
  \<^verbatim>\<open>(now - dt).total_seconds()\<close> where \<^verbatim>\<open>now = datetime.now(timezone.utc)\<close> is aware:
  subtracting a naive datetime raises TypeError. The clock reading \<open>now\<close> (POSIX
  seconds) is a parameter; one reading stands for all the readings of one call.
\<close>

definition seconds_since :: "real \<Rightarrow> datetime \<Rightarrow> py_error + real" where
  "seconds_since now dt =
     (case dt of Naive w \<Rightarrow> Inl TypeError | Aware t off \<Rightarrow> Inr (now - t))"

text \<open>\<^verbatim>\<open>dt.date()\<close>: the calendar day of the datetime in its own offset, as a day number.\<close>

definition date_of :: "datetime \<Rightarrow> int" where
  "date_of dt = (case dt of Naive w \<Rightarrow> \<lfloor>w / 86400\<rfloor> | Aware t off \<Rightarrow> \<lfloor>(t + off) / 86400\<rfloor>)"

text \<open>
  Fields of the raw records are options: \<open>None\<close> is an absent key and, for the nullable
  fields (blog, bio, hireable, language, license), also JSON null.
\<close>

record raw_profile =
  profile_login :: "string option"
  profile_created_at :: "date_str option"
  profile_public_repos :: "int option"
  profile_followers :: "int option"
  profile_following :: "int option"
  profile_blog :: "string option"
  profile_bio :: "string option"
  profile_hireable :: "bool option"

record raw_repo =
  repo_language :: "string option"
  repo_stargazers_count :: "int option"
  repo_forks_count :: "int option"
  repo_watchers_count :: "int option"
  repo_created_at :: "date_str option"
  repo_fork :: "bool option"
  repo_license :: "(string \<times> string) list option"

record raw_payload =
  payload_commits :: "string list option"

record raw_event =
  event_type :: "string option"
  event_created_at :: "date_str option"
  event_payload :: "raw_payload option"

record raw_data =
  data_profile :: "raw_profile option"
  data_repos :: "raw_repo list option"
  data_events :: "raw_event list option"

text \<open>Truthiness of \<^verbatim>\<open>d.get(key)\<close> for strings, date strings and JSON objects.\<close>

definition truthy_str :: "string option \<Rightarrow> bool" where
  "truthy_str entry = (case entry of None \<Rightarrow> False | Some s \<Rightarrow> s \<noteq> [])"

definition truthy_date :: "date_str option \<Rightarrow> bool" where
  "truthy_date entry = (case entry of None \<Rightarrow> False | Some s \<Rightarrow> s \<noteq> EmptyStr)"

definition truthy_obj :: "(string \<times> string) list option \<Rightarrow> bool" where
  "truthy_obj entry = (case entry of None \<Rightarrow> False | Some kvs \<Rightarrow> kvs \<noteq> [])"

section \<open>utils/utils.py: date helpers\<close>

definition parse_github_date :: "date_str option \<Rightarrow> py_error + datetime option" where
  "parse_github_date date_str =
     (if \<not> truthy_date date_str then Inr None
      else case fromisoformat (dict_get date_str EmptyStr) of
             Inl e \<Rightarrow> (if e = ValueError then Inr None else Inl e)
           | Inr dt \<Rightarrow> Inr (Some dt))"

definition days_since :: "real \<Rightarrow> date_str option \<Rightarrow> py_error + real" where
  "days_since now date_str =
     ebind (parse_github_date date_str) (\<lambda>parsed.
       case parsed of
         None \<Rightarrow> Inr 0.0
       | Some dt \<Rightarrow> ebind (seconds_since now dt) (\<lambda>secs. Inr (max (secs / 86400) 0.0)))"

definition years_since :: "real \<Rightarrow> date_str option \<Rightarrow> py_error + real" where
  "years_since now date_str = ebind (days_since now date_str) (\<lambda>days. Inr (days / 365.25))"

section \<open>core/analyzer.py\<close>

text \<open>
  Each of the four extractors returns a dictionary holding its own keys only: a metrics
  record whose other fields are \<open>None\<close>. \<^verbatim>\<open>metrics.update(d)\<close> overrides the entries
  that \<open>d\<close> holds.
\<close>

definition empty_metrics :: metrics where
  "empty_metrics =
     \<lparr>username = None, account_age_days = None, account_age_years = None,
      public_repos = None, followers = None, following = None, has_blog = None,
      has_bio = None, hireable = None, total_repos = None, total_stars = None,
      total_forks_received = None, total_watchers = None, avg_repo_age_days = None,
      languages = None, top_languages = None, has_license_ratio = None,
      forked_ratio = None, original_repo_count = None, language_count = None,
      total_events = None, push_events = None, pr_events = None, issue_events = None,
      fork_events = None, watch_events = None, commit_count_90d = None,
      active_days_90d = None, events_last_30d = None, events_30_90d = None,
      most_active_period = None, event_type_diversity = None, collaboration_raw = None,
      momentum_ratio = None\<rparr>"

definition override :: "'a option \<Rightarrow> 'a option \<Rightarrow> 'a option" where
  "override old new = (case new of None \<Rightarrow> old | Some v \<Rightarrow> Some v)"

definition dict_update :: "metrics \<Rightarrow> metrics \<Rightarrow> metrics" where
  "dict_update m d =
     \<lparr>username = override (username m) (username d),
      account_age_days = override (account_age_days m) (account_age_days d),
      account_age_years = override (account_age_years m) (account_age_years d),
      public_repos = override (public_repos m) (public_repos d),
      followers = override (followers m) (followers d),
      following = override (following m) (following d),
      has_blog = override (has_blog m) (has_blog d),
      has_bio = override (has_bio m) (has_bio d),
      hireable = override (hireable m) (hireable d),
      total_repos = override (total_repos m) (total_repos d),
      total_stars = override (total_stars m) (total_stars d),
      total_forks_received = override (total_forks_received m) (total_forks_received d),
      total_watchers = override (total_watchers m) (total_watchers d),
      avg_repo_age_days = override (avg_repo_age_days m) (avg_repo_age_days d),
      languages = override (languages m) (languages d),
      top_languages = override (top_languages m) (top_languages d),
      has_license_ratio = override (has_license_ratio m) (has_license_ratio d),
      forked_ratio = override (forked_ratio m) (forked_ratio d),
      original_repo_count = override (original_repo_count m) (original_repo_count d),
      language_count = override (language_count m) (language_count d),
      total_events = override (total_events m) (total_events d),
      push_events = override (push_events m) (push_events d),
      pr_events = override (pr_events m) (pr_events d),
      issue_events = override (issue_events m) (issue_events d),
      fork_events = override (fork_events m) (fork_events d),
      watch_events = override (watch_events m) (watch_events d),
      commit_count_90d = override (commit_count_90d m) (commit_count_90d d),
      active_days_90d = override (active_days_90d m) (active_days_90d d),
      events_last_30d = override (events_last_30d m) (events_last_30d d),
      events_30_90d = override (events_30_90d m) (events_30_90d d),
      most_active_period = override (most_active_period m) (most_active_period d),
      event_type_diversity = override (event_type_diversity m) (event_type_diversity d),
      collaboration_raw = override (collaboration_raw m) (collaboration_raw d),
      momentum_ratio = override (momentum_ratio m) (momentum_ratio d)\<rparr>"

subsection \<open>Profile signals\<close>

definition profile_metrics :: "real \<Rightarrow> raw_profile \<Rightarrow> py_error + metrics" where
  "profile_metrics now profile =
     ebind (days_since now (profile_created_at profile)) (\<lambda>age_days.
     ebind (years_since now (profile_created_at profile)) (\<lambda>age_years.
       Inr (empty_metrics
         \<lparr>username := Some (dict_get (profile_login profile) ''unknown''),
          account_age_days := Some age_days,
          account_age_years := Some age_years,
          public_repos := Some (real_of_int (dict_get (profile_public_repos profile) 0)),
          followers := Some (real_of_int (dict_get (profile_followers profile) 0)),
          following := Some (real_of_int (dict_get (profile_following profile) 0)),
          has_blog := Some (truthy_str (profile_blog profile)),
          has_bio := Some (truthy_str (profile_bio profile)),
          hireable := Some (truthy_bool (profile_hireable profile))\<rparr>)))"

subsection \<open>Repository signals\<close>

text \<open>
  \<^verbatim>\<open>collections.Counter\<close> is a dictionary in insertion order: a new key goes to the end,
  a known key is counted where it stands. \<^verbatim>\<open>most_common()\<close> is
  \<^verbatim>\<open>sorted(items, key=itemgetter(1), reverse=True)\<close>, a stable sort by descending count.
\<close>

fun counter_add :: "(string \<times> nat) list \<Rightarrow> string \<Rightarrow> (string \<times> nat) list" where
  "counter_add [] k = [(k, 1)]"
| "counter_add ((k', c) # rest) k =
     (if k' = k then (k', c + 1) # rest else (k', c) # counter_add rest k)"

definition Counter :: "string list \<Rightarrow> (string \<times> nat) list" where
  "Counter xs = foldl counter_add [] xs"

definition most_common :: "(string \<times> nat) list \<Rightarrow> (string \<times> nat) list" where
  "most_common items = sort_key (\<lambda>item. - int (snd item)) items"

fun join :: "string \<Rightarrow> string list \<Rightarrow> string" where
  "join sep [] = []"
| "join sep [x] = x"
| "join sep (x # y # ys) = x @ sep @ join sep (y # ys)"

text \<open>
  The list comprehension
  \<^verbatim>\<open>[days_since(r.get("created_at")) for r in repos if r.get("created_at")]\<close>.
\<close>

fun repo_ages :: "real \<Rightarrow> raw_repo list \<Rightarrow> py_error + real list" where
  "repo_ages now [] = Inr []"
| "repo_ages now (r # rs) =
     (if truthy_date (repo_created_at r)
      then ebind (days_since now (repo_created_at r)) (\<lambda>age.
           ebind (repo_ages now rs) (\<lambda>ages. Inr (age # ages)))
      else repo_ages now rs)"

definition repo_metrics :: "real \<Rightarrow> raw_repo list \<Rightarrow> py_error + metrics" where
  "repo_metrics now repos =
     (if repos = [] then
        Inr (empty_metrics
          \<lparr>total_repos := Some 0, total_stars := Some 0, total_forks_received := Some 0,
           total_watchers := Some 0, avg_repo_age_days := Some 0.0, languages := Some [],
           top_languages := Some ''N/A'', has_license_ratio := Some 0.0,
           forked_ratio := Some 0.0, original_repo_count := Some 0,
           language_count := Some 0\<rparr>)
      else
        let total_stars_v = sum_list (map (\<lambda>r. dict_get (repo_stargazers_count r) 0) repos);
            total_forks_received_v = sum_list (map (\<lambda>r. dict_get (repo_forks_count r) 0) repos);
            total_watchers_v = sum_list (map (\<lambda>r. dict_get (repo_watchers_count r) 0) repos);
            lang_counter = Counter (map (\<lambda>r. dict_get (repo_language r) [])
                                     (filter (\<lambda>r. truthy_str (repo_language r)) repos));
            languages_v = map fst (most_common lang_counter);
            top_languages_v = (if languages_v \<noteq> [] then join '', '' (take 5 languages_v)
                               else ''N/A'')
        in ebind (repo_ages now repos) (\<lambda>ages.
             let avg_repo_age_days_v = (if ages \<noteq> [] then sum_list ages / real (length ages)
                                        else 0.0);
                 licensed_count = sum_list (map (\<lambda>r. (1::nat))
                                    (filter (\<lambda>r. truthy_obj (repo_license r)) repos));
                 has_license_ratio_v = safe_divide (real licensed_count) (real (length repos)) 0.0;
                 forked_repos = filter (\<lambda>r. truthy_bool (repo_fork r)) repos;
                 forked_ratio_v = safe_divide (real (length forked_repos))
                                    (real (length repos)) 0.0;
                 original_repo_count_v = int (length repos) - int (length forked_repos)
             in Inr (empty_metrics
                  \<lparr>total_repos := Some (real (length repos)),
                   total_stars := Some (real_of_int total_stars_v),
                   total_forks_received := Some (real_of_int total_forks_received_v),
                   total_watchers := Some (real_of_int total_watchers_v),
                   avg_repo_age_days := Some avg_repo_age_days_v,
                   languages := Some languages_v,
                   top_languages := Some top_languages_v,
                   has_license_ratio := Some has_license_ratio_v,
                   forked_ratio := Some forked_ratio_v,
                   original_repo_count := Some (real_of_int original_repo_count_v),
                   language_count := Some (real (length lang_counter))\<rparr>)))"

subsection \<open>Event signals\<close>

record event_acc =
  acc_commit_count_90d :: nat
  acc_active_days_set :: "int set"
  acc_events_last_30d :: nat
  acc_events_30_90d :: nat

definition commits_of :: "raw_event \<Rightarrow> string list" where
  "commits_of event =
     dict_get (payload_commits (dict_get (event_payload event) \<lparr>payload_commits = None\<rparr>)) []"

text \<open>
  One turn of the loop over the events. \<^verbatim>\<open>event.get("created_at", "")\<close> is parsed
  inside the \<^verbatim>\<open>try\<close>, whose handler skips the event on ValueError (and on
  AttributeError, which a string never raises there); the subtraction from \<open>now\<close> comes
  after the \<^verbatim>\<open>try\<close>.
\<close>

definition event_step :: "real \<Rightarrow> event_acc \<Rightarrow> raw_event \<Rightarrow> py_error + event_acc" where
  "event_step now acc event =
     (case fromisoformat (dict_get (event_created_at event) EmptyStr) of
        Inl e \<Rightarrow> (if e = ValueError then Inr acc else Inl e)
      | Inr dt \<Rightarrow>
          ebind (seconds_since now dt) (\<lambda>secs.
            let age_days = secs / 86400;
                acc1 = (if age_days \<le> 90 \<and> event_type event = Some ''PushEvent''
                        then acc\<lparr>acc_commit_count_90d :=
                                   acc_commit_count_90d acc + length (commits_of event),
                                 acc_active_days_set :=
                                   insert (date_of dt) (acc_active_days_set acc)\<rparr>
                        else acc)
            in Inr (if age_days \<le> 30
                    then acc1\<lparr>acc_events_last_30d := acc_events_last_30d acc1 + 1\<rparr>
                    else if age_days \<le> 90
                    then acc1\<lparr>acc_events_30_90d := acc_events_30_90d acc1 + 1\<rparr>
                    else acc1)))"

fun event_loop :: "real \<Rightarrow> event_acc \<Rightarrow> raw_event list \<Rightarrow> py_error + event_acc" where
  "event_loop now acc [] = Inr acc"
| "event_loop now acc (event # rest) =
     ebind (event_step now acc event) (\<lambda>acc'. event_loop now acc' rest)"

definition EN_DASH :: string where
  "EN_DASH = [CHR 0xE2, CHR 0x80, CHR 0x93]"

definition event_metrics :: "real \<Rightarrow> raw_event list \<Rightarrow> py_error + metrics" where
  "event_metrics now events =
     (if events = [] then
        Inr (empty_metrics
          \<lparr>total_events := Some 0, push_events := Some 0, pr_events := Some 0,
           issue_events := Some 0, fork_events := Some 0, watch_events := Some 0,
           commit_count_90d := Some 0, active_days_90d := Some 0,
           events_last_30d := Some 0, events_30_90d := Some 0,
           most_active_period := Some ''N/A'', event_type_diversity := Some 0\<rparr>)
      else
        let push_events_v = filter (\<lambda>e. event_type e = Some ''PushEvent'') events;
            pr_events_v = filter (\<lambda>e. event_type e = Some ''PullRequestEvent''
                                      \<or> event_type e = Some ''PullRequestReviewEvent'') events;
            issue_events_v = filter (\<lambda>e. event_type e = Some ''IssuesEvent''
                                         \<or> event_type e = Some ''IssueCommentEvent'') events;
            fork_events_v = filter (\<lambda>e. event_type e = Some ''ForkEvent'') events;
            watch_events_v = filter (\<lambda>e. event_type e = Some ''WatchEvent'') events
        in ebind (event_loop now
                    \<lparr>acc_commit_count_90d = 0, acc_active_days_set = {},
                     acc_events_last_30d = 0, acc_events_30_90d = 0\<rparr> events) (\<lambda>acc.
             let most_active_period_v =
                   (if acc_events_last_30d acc > acc_events_30_90d acc
                    then ''Last 30 days (currently active)''
                    else if acc_events_30_90d acc > 0
                    then ''30'' @ EN_DASH @ ''90 days ago''
                    else ''More than 90 days ago'');
                 event_types = set (map (\<lambda>e. dict_get (event_type e) [])
                                      (filter (\<lambda>e. truthy_str (event_type e)) events))
             in Inr (empty_metrics
                  \<lparr>total_events := Some (real (length events)),
                   push_events := Some (real (length push_events_v)),
                   pr_events := Some (real (length pr_events_v)),
                   issue_events := Some (real (length issue_events_v)),
                   fork_events := Some (real (length fork_events_v)),
                   watch_events := Some (real (length watch_events_v)),
                   commit_count_90d := Some (real (acc_commit_count_90d acc)),
                   active_days_90d := Some (real (card (acc_active_days_set acc))),
                   events_last_30d := Some (real (acc_events_last_30d acc)),
                   events_30_90d := Some (real (acc_events_30_90d acc)),
                   most_active_period := Some most_active_period_v,
                   event_type_diversity := Some (real (card event_types))\<rparr>)))"

subsection \<open>Derived signals and the entry point\<close>

definition derived_metrics :: "metrics \<Rightarrow> metrics" where
  "derived_metrics m =
     (let collaboration_raw_v = dict_get (pr_events m) 0 * 3
                              + dict_get (issue_events m) 0 * 2
                              + dict_get (fork_events m) 0;
          recent_rate = dict_get (events_last_30d m) 0;
          historic_rate = safe_divide (dict_get (events_30_90d m) 0) 2 0.0;
          momentum_ratio_v = safe_divide recent_rate (max historic_rate 1) 0.0
      in empty_metrics\<lparr>collaboration_raw := Some collaboration_raw_v,
                       momentum_ratio := Some momentum_ratio_v\<rparr>)"

definition empty_profile :: raw_profile where
  "empty_profile =
     \<lparr>profile_login = None, profile_created_at = None, profile_public_repos = None,
      profile_followers = None, profile_following = None, profile_blog = None,
      profile_bio = None, profile_hireable = None\<rparr>"

definition analyze :: "real \<Rightarrow> raw_data \<Rightarrow> py_error + metrics" where
  "analyze now raw =
     (let profile = dict_get (data_profile raw) empty_profile;
          repos = dict_get (data_repos raw) [];
          events = dict_get (data_events raw) []
      in ebind (profile_metrics now profile) (\<lambda>pm.
         ebind (repo_metrics now repos) (\<lambda>rm.
         ebind (event_metrics now events) (\<lambda>em.
           let m1 = dict_update empty_metrics pm;
               m2 = dict_update m1 rm;
               m3 = dict_update m2 em
           in Inr (dict_update m3 (derived_metrics m3))))))"

section \<open>Definitions that follow the specification\<close>

text \<open>A \<^verbatim>\<open>created_at\<close> entry that is not a timestamp without UTC offset.\<close>

definition has_offset :: "date_str option \<Rightarrow> bool" where
  "has_offset entry = (case entry of Some (NaiveStamp w) \<Rightarrow> False | _ \<Rightarrow> True)"

text \<open>
  The mean of a list of numbers, 0 for the empty list, and the number of days since a
  creation date as the specification defines it: \<open>max ((now - date) / 86400) 0\<close>, and 0
  for a date that is absent or does not parse. (For a timestamp without offset the code
  raises, so the value given to it here never meets a result of the code.)
\<close>

definition mean :: "real list \<Rightarrow> real" where
  "mean xs = (if xs = [] then 0 else sum_list xs / real (length xs))"

definition days_since_creation :: "real \<Rightarrow> date_str option \<Rightarrow> real" where
  "days_since_creation now entry =
     (case entry of Some (AwareStamp t off) \<Rightarrow> max ((now - t) / 86400) 0 | _ \<Rightarrow> 0)"

text \<open>A \<^verbatim>\<open>created_at\<close> entry is parsable when \<^verbatim>\<open>datetime.fromisoformat\<close> accepts it.\<close>

definition parsable :: "date_str option \<Rightarrow> bool" where
  "parsable entry =
     (case entry of
        None \<Rightarrow> False
      | Some s \<Rightarrow> (case fromisoformat s of Inl e \<Rightarrow> False | Inr dt \<Rightarrow> True))"

text \<open>
  The average repository age in the words of the specification: the mean over exactly the
  repositories with a parsable \<^verbatim>\<open>created_at\<close>.
\<close>

definition spec_avg_repo_age_days :: "real \<Rightarrow> raw_repo list \<Rightarrow> real" where
  "spec_avg_repo_age_days now repos =
     mean (map (\<lambda>r. days_since_creation now (repo_created_at r))
            (filter (\<lambda>r. parsable (repo_created_at r)) repos))"

text \<open>
  The average repository age over the repositories with a non-empty \<^verbatim>\<open>created_at\<close>,
  parsable or not.
\<close>

definition dated_avg_repo_age_days :: "real \<Rightarrow> raw_repo list \<Rightarrow> real" where
  "dated_avg_repo_age_days now repos =
     mean (map (\<lambda>r. days_since_creation now (repo_created_at r))
            (filter (\<lambda>r. truthy_date (repo_created_at r)) repos))"

text \<open>
  The distinct elements of a list in the order of their first occurrence, and the position
  of the first occurrence of an element.
\<close>

fun first_seen :: "'a list \<Rightarrow> 'a list" where
  "first_seen [] = []"
| "first_seen (x # xs) = x # removeAll x (first_seen xs)"

fun first_index :: "'a list \<Rightarrow> 'a \<Rightarrow> nat" where
  "first_index [] a = 0"
| "first_index (x # xs) a = (if x = a then 0 else Suc (first_index xs a))"

text \<open>
  The ranking of the specification: \<open>a\<close> ranks before \<open>b\<close> when it is counted more often,
  or equally often and met first.
\<close>

definition ranks_before :: "string list \<Rightarrow> string \<Rightarrow> string \<Rightarrow> bool" where
  "ranks_before ls a b =
     (count_list ls a > count_list ls b
      \<or> (count_list ls a = count_list ls b \<and> first_index ls a < first_index ls b))"

text \<open>
  The language values that are not null, and those among them that are not the empty
  string either.
\<close>

definition non_null_languages :: "raw_repo list \<Rightarrow> string list" where
  "non_null_languages repos =
     concat (map (\<lambda>r. case repo_language r of None \<Rightarrow> [] | Some l \<Rightarrow> [l]) repos)"

definition counted_languages :: "raw_repo list \<Rightarrow> string list" where
  "counted_languages repos =
     concat (map (\<lambda>r. case repo_language r of
                         None \<Rightarrow> []
                       | Some l \<Rightarrow> (if l = [] then [] else [l])) repos)"

section \<open>Concrete inputs\<close>

text \<open>
  Inputs at which the theorems below are evaluated: a raw record with an empty profile and
  no repositories or events, one push event created at POSIX time 0, one push event
  whose \<^verbatim>\<open>created_at\<close> has no UTC offset, and repository lists that differ in
  their creation dates or their languages.
\<close>

definition empty_raw_data :: raw_data where
  "empty_raw_data =
     \<lparr>data_profile = Some empty_profile, data_repos = Some [], data_events = Some []\<rparr>"

definition recent_push_event :: raw_event where
  "recent_push_event =
     \<lparr>event_type = Some ''PushEvent'', event_created_at = Some (AwareStamp 0 0),
      event_payload = Some \<lparr>payload_commits = Some [''abc'', ''def'']\<rparr>\<rparr>"

definition recent_push_data :: raw_data where
  "recent_push_data =
     \<lparr>data_profile = Some empty_profile, data_repos = Some [],
      data_events = Some [recent_push_event]\<rparr>"

definition offsetless_event :: raw_event where
  "offsetless_event =
     \<lparr>event_type = Some ''PushEvent'', event_created_at = Some (NaiveStamp 0),
      event_payload = None\<rparr>"

definition offsetless_event_data :: raw_data where
  "offsetless_event_data =
     \<lparr>data_profile = Some empty_profile, data_repos = Some [],
      data_events = Some [offsetless_event]\<rparr>"

text \<open>The events of \<^verbatim>\<open>test_no_crash_on_malformed_events\<close> (tests/test_analyzer.py).\<close>

definition malformed_events :: "raw_event list" where
  "malformed_events =
     [\<lparr>event_type = Some ''PushEvent'', event_created_at = None, event_payload = None\<rparr>,
      \<lparr>event_type = None, event_created_at = Some (AwareStamp 0 0), event_payload = None\<rparr>,
      \<lparr>event_type = None, event_created_at = None, event_payload = None\<rparr>]"

text \<open>Repositories with only a creation date, or only a language.\<close>

definition repo_created :: "date_str option \<Rightarrow> raw_repo" where
  "repo_created entry =
     \<lparr>repo_language = None, repo_stargazers_count = None, repo_forks_count = None,
      repo_watchers_count = None, repo_created_at = entry, repo_fork = None,
      repo_license = None\<rparr>"

definition repo_with_language :: "string option \<Rightarrow> raw_repo" where
  "repo_with_language entry =
     \<lparr>repo_language = entry, repo_stargazers_count = None, repo_forks_count = None,
      repo_watchers_count = None, repo_created_at = None, repo_fork = None,
      repo_license = None\<rparr>"

definition dated_repo_data :: raw_data where
  "dated_repo_data =
     \<lparr>data_profile = Some empty_profile,
      data_repos = Some [repo_created (Some (AwareStamp 0 0)), repo_created None],
      data_events = Some []\<rparr>"

definition language_data :: raw_data where
  "language_data =
     \<lparr>data_profile = Some empty_profile,
      data_repos = Some [repo_with_language (Some ''Go''), repo_with_language (Some ''Python''),
                         repo_with_language None, repo_with_language (Some ''Python''),
                         repo_with_language (Some ''C''), repo_with_language (Some ''Go'')],
      data_events = Some []\<rparr>"

section \<open>Facts about the numeric primitives\<close>

lemma clamp_range: "0 \<le> clamp v 0 100 \<and> clamp v 0 100 \<le> 100"
  by (simp add: clamp_def)

lemma log_scale_positive_scale:
  assumes "0 < scale"
  shows "log_scale v scale =
           Inr (if v \<le> 0 then 0 else clamp (ln (1 + v) / ln (1 + scale) * 100) 0 100)"
proof -
  from assms have "0 < ln (1 + scale)"
    by (simp add: ln_gt_zero)
  with assms show ?thesis
    by (simp add: log_scale_def)
qed

lemma ebind_Inr [simp]: "ebind (Inr v) f = f v"
  by (simp add: ebind_def)

lemma ebind_Inl [simp]: "ebind (Inl e) f = Inl e"
  by (simp add: ebind_def)

lemma ebind_log_scale_clamped:
  assumes "0 < scale" and "\<And>y. \<exists>z. f y = Inr (clamp z 0 100)"
  shows "\<exists>z. ebind (log_scale v scale) f = Inr (clamp z 0 100)"
  using assms by (simp add: log_scale_positive_scale)

section \<open>The scorers stay within 0 and 100\<close>

lemma score_consistency_range:
  obtains y where "score_consistency m = Inr y" and "0 \<le> y" and "y \<le> 100"
proof -
  have "\<exists>y. score_consistency m = Inr (clamp y 0 100)"
    unfolding score_consistency_def Let_def
    by (intro ebind_log_scale_clamped) auto
  then show ?thesis
    using that clamp_range by blast
qed

lemma score_collaboration_range:
  obtains y where "score_collaboration m = Inr y" and "0 \<le> y" and "y \<le> 100"
proof -
  have "\<exists>y. score_collaboration m = Inr (clamp y 0 100)"
    unfolding score_collaboration_def Let_def
    by (intro ebind_log_scale_clamped) auto
  then show ?thesis
    using that clamp_range by blast
qed

lemma score_depth_range:
  obtains y where "score_depth m = Inr y" and "0 \<le> y" and "y \<le> 100"
proof -
  have "\<exists>y. score_depth m = Inr (clamp y 0 100)"
    unfolding score_depth_def Let_def
    by (intro ebind_log_scale_clamped) auto
  then show ?thesis
    using that clamp_range by blast
qed

lemma score_breadth_range:
  obtains y where "score_breadth m = Inr y" and "0 \<le> y" and "y \<le> 100"
proof -
  have "\<exists>y. score_breadth m = Inr (clamp y 0 100)"
    unfolding score_breadth_def Let_def
    by (intro ebind_log_scale_clamped) auto
  then show ?thesis
    using that clamp_range by blast
qed

lemma score_momentum_range:
  obtains y where "score_momentum m = Inr y" and "0 \<le> y" and "y \<le> 100"
proof -
  have "\<exists>y. score_momentum m = Inr (clamp y 0 100)"
    unfolding score_momentum_def Let_def
    by (intro ebind_log_scale_clamped) auto
  then show ?thesis
    using that clamp_range by blast
qed

lemma score_openness_range: "0 \<le> score_openness m \<and> score_openness m \<le> 100"
  by (simp add: score_openness_def Let_def clamp_range)

text \<open>
  Claim C1. For every metrics dictionary, \<open>score\<close> returns a report (it does not raise),
  each of its six dimension scores lies between 0 and 100 inclusive, and so does the
  overall score. The numeric fields are arbitrary reals here, so the finite, non-negative
  ones of the claim are covered; an absent key takes the default of the scorer.
\<close>

theorem score_in_range:
  "\<exists>r. score m = Inr r
     \<and> 0 \<le> consistency (dimensions r) \<and> consistency (dimensions r) \<le> 100
     \<and> 0 \<le> collaboration (dimensions r) \<and> collaboration (dimensions r) \<le> 100
     \<and> 0 \<le> depth (dimensions r) \<and> depth (dimensions r) \<le> 100
     \<and> 0 \<le> breadth (dimensions r) \<and> breadth (dimensions r) \<le> 100
     \<and> 0 \<le> momentum (dimensions r) \<and> momentum (dimensions r) \<le> 100
     \<and> 0 \<le> openness (dimensions r) \<and> openness (dimensions r) \<le> 100
     \<and> 0 \<le> overall_score r \<and> overall_score r \<le> 100"
proof -
  obtain c where c: "score_consistency m = Inr c" "0 \<le> c" "c \<le> 100"
    by (rule score_consistency_range)
  obtain co where co: "score_collaboration m = Inr co" "0 \<le> co" "co \<le> 100"
    by (rule score_collaboration_range)
  obtain d where d: "score_depth m = Inr d" "0 \<le> d" "d \<le> 100"
    by (rule score_depth_range)
  obtain b where b: "score_breadth m = Inr b" "0 \<le> b" "b \<le> 100"
    by (rule score_breadth_range)
  obtain mo where mo: "score_momentum m = Inr mo" "0 \<le> mo" "mo \<le> 100"
    by (rule score_momentum_range)
  show ?thesis
    using c co d b mo score_openness_range [of m]
    by (simp add: score_def Let_def clamp_range)
qed

section \<open>Classification of the overall score\<close>

text \<open>
  Claim C3. For every metrics dictionary, \<open>score\<close> returns a report whose tendency is
  \<open>classify_tendency\<close> of its overall score, and that classification is a three-way
  threshold in which the first match wins: a score of 70 or more (70 included) is Utopia,
  a score of 40 or less (40 included) is Dystopia, and a score strictly between 40 and 70
  is Unexpected.
\<close>

theorem classify_tendency_thresholds:
  "(\<exists>r. score m = Inr r \<and> tendency r = classify_tendency (overall_score r))
   \<and> (70 \<le> s \<longrightarrow> classify_tendency s = ''Utopia'')
   \<and> (s \<le> 40 \<longrightarrow> classify_tendency s = ''Dystopia'')
   \<and> (40 < s \<and> s < 70 \<longrightarrow> classify_tendency s = ''Unexpected'')"
proof -
  obtain c where c: "score_consistency m = Inr c"
    by (rule score_consistency_range)
  obtain co where co: "score_collaboration m = Inr co"
    by (rule score_collaboration_range)
  obtain d where d: "score_depth m = Inr d"
    by (rule score_depth_range)
  obtain b where b: "score_breadth m = Inr b"
    by (rule score_breadth_range)
  obtain mo where mo: "score_momentum m = Inr mo"
    by (rule score_momentum_range)
  have "\<exists>r. score m = Inr r \<and> tendency r = classify_tendency (overall_score r)"
    using c co d b mo by (simp add: score_def Let_def)
  moreover have "70 \<le> s \<longrightarrow> classify_tendency s = ''Utopia''"
    by (simp add: classify_tendency_def UTOPIA_THRESHOLD_def)
  moreover have "s \<le> 40 \<longrightarrow> classify_tendency s = ''Dystopia''"
    by (simp add: classify_tendency_def UTOPIA_THRESHOLD_def DYSTOPIA_THRESHOLD_def)
  moreover have "40 < s \<and> s < 70 \<longrightarrow> classify_tendency s = ''Unexpected''"
    by (simp add: classify_tendency_def UTOPIA_THRESHOLD_def DYSTOPIA_THRESHOLD_def)
  ultimately show ?thesis
    by blast
qed

theorem classify_tendency_thresholds_witness:
  "((70::real) \<le> 70 \<and> classify_tendency 70 = ''Utopia'')
   \<and> ((40::real) \<le> 40 \<and> classify_tendency 40 = ''Dystopia'')
   \<and> ((40::real) < 55 \<and> (55::real) < 70 \<and> classify_tendency 55 = ''Unexpected'')"
  using classify_tendency_thresholds [of empty_metrics 70]
    classify_tendency_thresholds [of empty_metrics 40]
    classify_tendency_thresholds [of empty_metrics 55]
  by simp

section \<open>Logarithmic scaling\<close>

text \<open>
  Claim C7. For every value and every scale greater than 0, \<open>log_scale\<close> returns 0 when
  the value is at most 0 and otherwise the clamp of \<open>ln (1 + value) / ln (1 + scale) * 100\<close>;
  it returns (it does not raise) and its result lies between 0 and 100.
\<close>

theorem log_scale_spec:
  assumes "0 < scale"
  shows "(v \<le> 0 \<longrightarrow> log_scale v scale = Inr 0)
       \<and> (0 < v \<longrightarrow> log_scale v scale = Inr (clamp (ln (1 + v) / ln (1 + scale) * 100) 0 100))
       \<and> (\<exists>y. log_scale v scale = Inr y \<and> 0 \<le> y \<and> y \<le> 100)"
  using assms by (simp add: log_scale_positive_scale clamp_range)

theorem log_scale_spec_witness:
  "(0::real) < 1 \<and> (0::real) \<le> 0 \<and> log_scale 0 1 = Inr 0
   \<and> (0::real) < 1 \<and> log_scale 1 1 = Inr 100"
  using log_scale_spec [of 1 0] log_scale_spec [of 1 1]
  by (simp add: clamp_def)

section \<open>Dictionaries and the parts of \<open>analyze\<close>\<close>

lemma ebind_eq_Inr: "ebind r f = Inr y \<longleftrightarrow> (\<exists>v. r = Inr v \<and> f v = Inr y)"
  by (cases r) simp_all

lemma override_simps [simp]:
  "override old None = old" "override old (Some v) = Some v" "override None new = new"
  by (simp_all add: override_def split: option.splits)

lemma override_present: "new \<noteq> None \<Longrightarrow> override old new = new"
  by (cases new) simp_all

lemma dict_update_sel [simp]:
  "username (dict_update m d) = override (username m) (username d)"
  "account_age_days (dict_update m d) = override (account_age_days m) (account_age_days d)"
  "account_age_years (dict_update m d) = override (account_age_years m) (account_age_years d)"
  "public_repos (dict_update m d) = override (public_repos m) (public_repos d)"
  "followers (dict_update m d) = override (followers m) (followers d)"
  "following (dict_update m d) = override (following m) (following d)"
  "has_blog (dict_update m d) = override (has_blog m) (has_blog d)"
  "has_bio (dict_update m d) = override (has_bio m) (has_bio d)"
  "hireable (dict_update m d) = override (hireable m) (hireable d)"
  "total_repos (dict_update m d) = override (total_repos m) (total_repos d)"
  "total_stars (dict_update m d) = override (total_stars m) (total_stars d)"
  "total_forks_received (dict_update m d) = override (total_forks_received m) (total_forks_received d)"
  "total_watchers (dict_update m d) = override (total_watchers m) (total_watchers d)"
  "avg_repo_age_days (dict_update m d) = override (avg_repo_age_days m) (avg_repo_age_days d)"
  "languages (dict_update m d) = override (languages m) (languages d)"
  "top_languages (dict_update m d) = override (top_languages m) (top_languages d)"
  "has_license_ratio (dict_update m d) = override (has_license_ratio m) (has_license_ratio d)"
  "forked_ratio (dict_update m d) = override (forked_ratio m) (forked_ratio d)"
  "original_repo_count (dict_update m d) = override (original_repo_count m) (original_repo_count d)"
  "language_count (dict_update m d) = override (language_count m) (language_count d)"
  "total_events (dict_update m d) = override (total_events m) (total_events d)"
  "push_events (dict_update m d) = override (push_events m) (push_events d)"
  "pr_events (dict_update m d) = override (pr_events m) (pr_events d)"
  "issue_events (dict_update m d) = override (issue_events m) (issue_events d)"
  "fork_events (dict_update m d) = override (fork_events m) (fork_events d)"
  "watch_events (dict_update m d) = override (watch_events m) (watch_events d)"
  "commit_count_90d (dict_update m d) = override (commit_count_90d m) (commit_count_90d d)"
  "active_days_90d (dict_update m d) = override (active_days_90d m) (active_days_90d d)"
  "events_last_30d (dict_update m d) = override (events_last_30d m) (events_last_30d d)"
  "events_30_90d (dict_update m d) = override (events_30_90d m) (events_30_90d d)"
  "most_active_period (dict_update m d) = override (most_active_period m) (most_active_period d)"
  "event_type_diversity (dict_update m d) = override (event_type_diversity m) (event_type_diversity d)"
  "collaboration_raw (dict_update m d) = override (collaboration_raw m) (collaboration_raw d)"
  "momentum_ratio (dict_update m d) = override (momentum_ratio m) (momentum_ratio d)"
  by (simp_all add: dict_update_def)

lemma empty_metrics_sel [simp]:
  "username empty_metrics = None"
  "account_age_days empty_metrics = None"
  "account_age_years empty_metrics = None"
  "public_repos empty_metrics = None"
  "followers empty_metrics = None"
  "following empty_metrics = None"
  "has_blog empty_metrics = None"
  "has_bio empty_metrics = None"
  "hireable empty_metrics = None"
  "total_repos empty_metrics = None"
  "total_stars empty_metrics = None"
  "total_forks_received empty_metrics = None"
  "total_watchers empty_metrics = None"
  "avg_repo_age_days empty_metrics = None"
  "languages empty_metrics = None"
  "top_languages empty_metrics = None"
  "has_license_ratio empty_metrics = None"
  "forked_ratio empty_metrics = None"
  "original_repo_count empty_metrics = None"
  "language_count empty_metrics = None"
  "total_events empty_metrics = None"
  "push_events empty_metrics = None"
  "pr_events empty_metrics = None"
  "issue_events empty_metrics = None"
  "fork_events empty_metrics = None"
  "watch_events empty_metrics = None"
  "commit_count_90d empty_metrics = None"
  "active_days_90d empty_metrics = None"
  "events_last_30d empty_metrics = None"
  "events_30_90d empty_metrics = None"
  "most_active_period empty_metrics = None"
  "event_type_diversity empty_metrics = None"
  "collaboration_raw empty_metrics = None"
  "momentum_ratio empty_metrics = None"
  by (simp_all add: empty_metrics_def)

lemma profile_metrics_keys:
  assumes "profile_metrics now profile = Inr pm"
  shows "total_repos pm = None" and "total_stars pm = None" and "language_count pm = None"
    and "top_languages pm = None" and "events_last_30d pm = None"
    and "events_30_90d pm = None" and "momentum_ratio pm = None"
    and "has_license_ratio pm = None" and "forked_ratio pm = None"
    and "avg_repo_age_days pm = None" and "most_active_period pm = None"
    and "languages pm = None"
  using assms by (auto simp: profile_metrics_def ebind_eq_Inr empty_metrics_def)

lemma repo_metrics_keys:
  assumes "repo_metrics now repos = Inr rm"
  shows "username rm = None" and "account_age_days rm = None"
    and "events_last_30d rm = None" and "events_30_90d rm = None"
    and "momentum_ratio rm = None" and "most_active_period rm = None"
  using assms
  by (auto simp: repo_metrics_def ebind_eq_Inr empty_metrics_def Let_def split: if_splits)

lemma event_metrics_keys:
  assumes "event_metrics now events = Inr em"
  shows "username em = None" and "account_age_days em = None"
    and "total_repos em = None" and "total_stars em = None" and "language_count em = None"
    and "top_languages em = None" and "momentum_ratio em = None"
    and "has_license_ratio em = None" and "forked_ratio em = None"
    and "avg_repo_age_days em = None" and "languages em = None"
  using assms
  by (auto simp: event_metrics_def ebind_eq_Inr empty_metrics_def Let_def split: if_splits)

lemma derived_metrics_keys:
  "username (derived_metrics m) = None" "account_age_days (derived_metrics m) = None"
  "total_repos (derived_metrics m) = None" "total_stars (derived_metrics m) = None"
  "language_count (derived_metrics m) = None" "top_languages (derived_metrics m) = None"
  "events_last_30d (derived_metrics m) = None" "events_30_90d (derived_metrics m) = None"
  "has_license_ratio (derived_metrics m) = None" "forked_ratio (derived_metrics m) = None"
  "avg_repo_age_days (derived_metrics m) = None" "most_active_period (derived_metrics m) = None"
  "languages (derived_metrics m) = None"
  by (simp_all add: derived_metrics_def empty_metrics_def Let_def)

lemma analyze_parts:
  assumes "analyze now raw = Inr m"
  obtains pm rm em where
    "profile_metrics now (dict_get (data_profile raw) empty_profile) = Inr pm"
    "repo_metrics now (dict_get (data_repos raw) []) = Inr rm"
    "event_metrics now (dict_get (data_events raw) []) = Inr em"
    "m = dict_update (dict_update (dict_update (dict_update empty_metrics pm) rm) em)
           (derived_metrics (dict_update (dict_update (dict_update empty_metrics pm) rm) em))"
  using assms by (auto simp: analyze_def Let_def ebind_eq_Inr)

lemma repo_metrics_present:
  assumes "repo_metrics now repos = Inr rm"
  shows "total_repos rm \<noteq> None" and "total_stars rm \<noteq> None"
    and "language_count rm \<noteq> None" and "top_languages rm \<noteq> None"
    and "languages rm \<noteq> None" and "avg_repo_age_days rm \<noteq> None"
    and "has_license_ratio rm \<noteq> None" and "forked_ratio rm \<noteq> None"
proof -
  have "total_repos rm \<noteq> None \<and> total_stars rm \<noteq> None \<and> language_count rm \<noteq> None
      \<and> top_languages rm \<noteq> None \<and> languages rm \<noteq> None \<and> avg_repo_age_days rm \<noteq> None
      \<and> has_license_ratio rm \<noteq> None \<and> forked_ratio rm \<noteq> None"
  proof (cases "repos = []")
    case True
    with assms show ?thesis
      unfolding repo_metrics_def by auto
  next
    case False
    with assms show ?thesis
      unfolding repo_metrics_def Let_def by (auto simp: ebind_eq_Inr)
  qed
  then show "total_repos rm \<noteq> None" and "total_stars rm \<noteq> None"
    and "language_count rm \<noteq> None" and "top_languages rm \<noteq> None"
    and "languages rm \<noteq> None" and "avg_repo_age_days rm \<noteq> None"
    and "has_license_ratio rm \<noteq> None" and "forked_ratio rm \<noteq> None"
    by simp_all
qed

lemma event_metrics_present:
  assumes "event_metrics now events = Inr em"
  shows "events_last_30d em \<noteq> None" and "events_30_90d em \<noteq> None"
    and "most_active_period em \<noteq> None"
proof -
  have "events_last_30d em \<noteq> None \<and> events_30_90d em \<noteq> None
      \<and> most_active_period em \<noteq> None"
  proof (cases "events = []")
    case True
    with assms show ?thesis
      unfolding event_metrics_def by auto
  next
    case False
    with assms show ?thesis
      unfolding event_metrics_def Let_def by (auto simp: ebind_eq_Inr)
  qed
  then show "events_last_30d em \<noteq> None" and "events_30_90d em \<noteq> None"
    and "most_active_period em \<noteq> None"
    by simp_all
qed

lemma analyze_profile_fields:
  assumes "analyze now raw = Inr m"
  obtains pm where "profile_metrics now (dict_get (data_profile raw) empty_profile) = Inr pm"
    and "username m = username pm" and "account_age_days m = account_age_days pm"
proof -
  from assms obtain pm rm em where parts:
    "profile_metrics now (dict_get (data_profile raw) empty_profile) = Inr pm"
    "repo_metrics now (dict_get (data_repos raw) []) = Inr rm"
    "event_metrics now (dict_get (data_events raw) []) = Inr em"
    "m = dict_update (dict_update (dict_update (dict_update empty_metrics pm) rm) em)
           (derived_metrics (dict_update (dict_update (dict_update empty_metrics pm) rm) em))"
    by (rule analyze_parts)
  have "username pm \<noteq> None" "account_age_days pm \<noteq> None"
    using parts(1) by (auto simp: profile_metrics_def ebind_eq_Inr)
  then have "username m = username pm" "account_age_days m = account_age_days pm"
    using parts(4) repo_metrics_keys [OF parts(2)] event_metrics_keys [OF parts(3)]
    by (simp_all add: derived_metrics_keys override_present)
  with parts(1) show ?thesis
    using that by blast
qed

lemma analyze_repo_fields:
  assumes "analyze now raw = Inr m"
  obtains rm where "repo_metrics now (dict_get (data_repos raw) []) = Inr rm"
    and "total_repos m = total_repos rm" and "total_stars m = total_stars rm"
    and "language_count m = language_count rm" and "top_languages m = top_languages rm"
    and "languages m = languages rm" and "avg_repo_age_days m = avg_repo_age_days rm"
    and "has_license_ratio m = has_license_ratio rm" and "forked_ratio m = forked_ratio rm"
proof -
  from assms obtain pm rm em where parts:
    "profile_metrics now (dict_get (data_profile raw) empty_profile) = Inr pm"
    "repo_metrics now (dict_get (data_repos raw) []) = Inr rm"
    "event_metrics now (dict_get (data_events raw) []) = Inr em"
    "m = dict_update (dict_update (dict_update (dict_update empty_metrics pm) rm) em)
           (derived_metrics (dict_update (dict_update (dict_update empty_metrics pm) rm) em))"
    by (rule analyze_parts)
  have some: "total_repos rm \<noteq> None" "total_stars rm \<noteq> None" "language_count rm \<noteq> None"
    "top_languages rm \<noteq> None" "languages rm \<noteq> None" "avg_repo_age_days rm \<noteq> None"
    "has_license_ratio rm \<noteq> None" "forked_ratio rm \<noteq> None"
    using parts(2) by (rule repo_metrics_present)+
  have "total_repos m = total_repos rm" "total_stars m = total_stars rm"
    "language_count m = language_count rm" "top_languages m = top_languages rm"
    "languages m = languages rm" "avg_repo_age_days m = avg_repo_age_days rm"
    "has_license_ratio m = has_license_ratio rm" "forked_ratio m = forked_ratio rm"
    using parts(4) some event_metrics_keys [OF parts(3)]
    by (simp_all add: derived_metrics_keys override_present)
  with parts(2) show ?thesis
    using that by blast
qed

lemma analyze_event_fields:
  assumes "analyze now raw = Inr m"
  obtains em where "event_metrics now (dict_get (data_events raw) []) = Inr em"
    and "events_last_30d m = events_last_30d em" and "events_30_90d m = events_30_90d em"
    and "most_active_period m = most_active_period em"
    and "momentum_ratio m =
           Some (safe_divide (dict_get (events_last_30d em) 0)
                   (max (safe_divide (dict_get (events_30_90d em) 0) 2 0) 1) 0)"
proof -
  from assms obtain pm rm em where parts:
    "profile_metrics now (dict_get (data_profile raw) empty_profile) = Inr pm"
    "repo_metrics now (dict_get (data_repos raw) []) = Inr rm"
    "event_metrics now (dict_get (data_events raw) []) = Inr em"
    "m = dict_update (dict_update (dict_update (dict_update empty_metrics pm) rm) em)
           (derived_metrics (dict_update (dict_update (dict_update empty_metrics pm) rm) em))"
    by (rule analyze_parts)
  have some: "events_last_30d em \<noteq> None" "events_30_90d em \<noteq> None"
    "most_active_period em \<noteq> None"
    using parts(3) by (rule event_metrics_present)+
  have "events_last_30d m = events_last_30d em" "events_30_90d m = events_30_90d em"
    "most_active_period m = most_active_period em"
    using parts(4) some by (simp_all add: derived_metrics_keys override_present)
  moreover have "momentum_ratio m =
           Some (safe_divide (dict_get (events_last_30d em) 0)
                   (max (safe_divide (dict_get (events_30_90d em) 0) 2 0) 1) 0)"
    using parts(4) some
    by (simp add: derived_metrics_def Let_def override_present)
  ultimately show ?thesis
    using parts(3) that by blast
qed

lemma profile_metrics_empty_profile:
  "profile_metrics now empty_profile =
     Inr (empty_metrics
       \<lparr>username := Some ''unknown'', account_age_days := Some 0, account_age_years := Some 0,
        public_repos := Some 0, followers := Some 0, following := Some 0,
        has_blog := Some False, has_bio := Some False, hireable := Some False\<rparr>)"
  by (simp add: profile_metrics_def empty_profile_def days_since_def years_since_def
      parse_github_date_def truthy_date_def truthy_str_def truthy_bool_def dict_get_def)

lemma repo_metrics_Nil:
  "repo_metrics now [] =
     Inr (empty_metrics
       \<lparr>total_repos := Some 0, total_stars := Some 0, total_forks_received := Some 0,
        total_watchers := Some 0, avg_repo_age_days := Some 0, languages := Some [],
        top_languages := Some ''N/A'', has_license_ratio := Some 0,
        forked_ratio := Some 0, original_repo_count := Some 0, language_count := Some 0\<rparr>)"
  by (simp add: repo_metrics_def)

lemma event_metrics_Nil:
  "event_metrics now [] =
     Inr (empty_metrics
       \<lparr>total_events := Some 0, push_events := Some 0, pr_events := Some 0,
        issue_events := Some 0, fork_events := Some 0, watch_events := Some 0,
        commit_count_90d := Some 0, active_days_90d := Some 0,
        events_last_30d := Some 0, events_30_90d := Some 0,
        most_active_period := Some ''N/A'', event_type_diversity := Some 0\<rparr>)"
  by (simp add: event_metrics_def)

lemma analyze_returns:
  assumes "profile_metrics now (dict_get (data_profile raw) empty_profile) = Inr pm"
    and "repo_metrics now (dict_get (data_repos raw) []) = Inr rm"
    and "event_metrics now (dict_get (data_events raw) []) = Inr em"
  shows "\<exists>m. analyze now raw = Inr m"
  using assms by (simp add: analyze_def Let_def)

lemma analyze_empty_raw_data: "\<exists>m. analyze now empty_raw_data = Inr m"
  by (rule analyze_returns)
    (simp_all add: empty_raw_data_def dict_get_def profile_metrics_empty_profile
      repo_metrics_Nil event_metrics_Nil)

section \<open>Empty inputs\<close>

text \<open>
  Claim C9. When the repository list is empty (or its key is absent), every metrics
  dictionary that \<open>analyze\<close> returns has \<open>total_repos = 0\<close>, \<open>total_stars = 0\<close>,
  \<open>language_count = 0\<close> and \<open>top_languages = "N/A"\<close>; when the profile is the empty
  mapping (or absent), it has \<open>username = "unknown"\<close> and \<open>account_age_days = 0\<close>; and on
  the input that is empty throughout \<open>analyze\<close> does return a dictionary.
\<close>

theorem analyze_empty_inputs:
  "(dict_get (data_repos raw) [] = [] \<and> analyze now raw = Inr m \<longrightarrow>
      total_repos m = Some 0 \<and> total_stars m = Some 0 \<and> language_count m = Some 0
      \<and> top_languages m = Some ''N/A'')
   \<and> (dict_get (data_profile raw) empty_profile = empty_profile \<and> analyze now raw = Inr m \<longrightarrow>
      username m = Some ''unknown'' \<and> account_age_days m = Some 0)
   \<and> (\<exists>m0. analyze now empty_raw_data = Inr m0)"
proof (intro conjI impI)
  assume a: "dict_get (data_repos raw) [] = [] \<and> analyze now raw = Inr m"
  then obtain rm where rm: "repo_metrics now [] = Inr rm"
    and eq: "total_repos m = total_repos rm" "total_stars m = total_stars rm"
      "language_count m = language_count rm" "top_languages m = top_languages rm"
    by (metis analyze_repo_fields)
  from rm show "total_repos m = Some 0" "total_stars m = Some 0" "language_count m = Some 0"
    "top_languages m = Some ''N/A''"
    unfolding eq by (auto simp: repo_metrics_Nil)
next
  assume a: "dict_get (data_profile raw) empty_profile = empty_profile \<and> analyze now raw = Inr m"
  then obtain pm where pm: "profile_metrics now empty_profile = Inr pm"
    and eq: "username m = username pm" "account_age_days m = account_age_days pm"
    by (metis analyze_profile_fields)
  from pm show "username m = Some ''unknown''" "account_age_days m = Some 0"
    unfolding eq by (auto simp: profile_metrics_empty_profile)
next
  show "\<exists>m0. analyze now empty_raw_data = Inr m0"
    by (rule analyze_empty_raw_data)
qed

theorem analyze_empty_inputs_witness:
  "dict_get (data_repos empty_raw_data) [] = []
   \<and> dict_get (data_profile empty_raw_data) empty_profile = empty_profile
   \<and> (\<exists>m. analyze 0 empty_raw_data = Inr m
        \<and> total_repos m = Some 0 \<and> total_stars m = Some 0 \<and> language_count m = Some 0
        \<and> top_languages m = Some ''N/A'' \<and> username m = Some ''unknown''
        \<and> account_age_days m = Some 0)"
proof -
  obtain m where m: "analyze 0 empty_raw_data = Inr m"
    using analyze_empty_inputs [of empty_raw_data 0] by blast
  have r: "dict_get (data_repos empty_raw_data) [] = []"
    and p: "dict_get (data_profile empty_raw_data) empty_profile = empty_profile"
    by (simp_all add: empty_raw_data_def dict_get_def)
  with m show ?thesis
    using analyze_empty_inputs [of empty_raw_data 0 m] by simp
qed

section \<open>The momentum ratio\<close>

text \<open>
  Claim C6. In every metrics dictionary that \<open>analyze\<close> returns, \<open>momentum_ratio\<close> is
  \<open>safe_divide events_last_30d (max (safe_divide events_30_90d 2) 1)\<close>; when
  \<open>events_30_90d\<close> is 0 and \<open>events_last_30d\<close> is \<open>n > 0\<close>, it is exactly \<open>n\<close>.
\<close>

theorem momentum_ratio_formula:
  assumes "analyze now raw = Inr m"
  shows "\<exists>n30 n90. events_last_30d m = Some n30 \<and> events_30_90d m = Some n90
           \<and> momentum_ratio m = Some (safe_divide n30 (max (safe_divide n90 2 0) 1) 0)
           \<and> (n90 = 0 \<and> 0 < n30 \<longrightarrow> momentum_ratio m = Some n30)"
proof -
  from assms obtain em where em: "event_metrics now (dict_get (data_events raw) []) = Inr em"
    and eq: "events_last_30d m = events_last_30d em" "events_30_90d m = events_30_90d em"
    and mr: "momentum_ratio m =
           Some (safe_divide (dict_get (events_last_30d em) 0)
                   (max (safe_divide (dict_get (events_30_90d em) 0) 2 0) 1) 0)"
    by (rule analyze_event_fields)
  from em obtain n30 n90 where n: "events_last_30d em = Some n30" "events_30_90d em = Some n90"
    using event_metrics_present by blast
  have "momentum_ratio m = Some (safe_divide n30 (max (safe_divide n90 2 0) 1) 0)"
    using mr n by (simp add: dict_get_def)
  moreover have "n90 = 0 \<and> 0 < n30 \<longrightarrow> safe_divide n30 (max (safe_divide n90 2 0) 1) 0 = n30"
    by (simp add: safe_divide_def)
  ultimately show ?thesis
    using eq n by simp
qed

lemma event_metrics_recent_push:
  "event_metrics 86400 [recent_push_event] =
     Inr (empty_metrics
       \<lparr>total_events := Some 1, push_events := Some 1, pr_events := Some 0,
        issue_events := Some 0, fork_events := Some 0, watch_events := Some 0,
        commit_count_90d := Some 2, active_days_90d := Some 1,
        events_last_30d := Some 1, events_30_90d := Some 0,
        most_active_period := Some ''Last 30 days (currently active)'',
        event_type_diversity := Some 1\<rparr>)"
  by (simp add: event_metrics_def recent_push_event_def event_step_def fromisoformat_def
      seconds_since_def date_of_def commits_of_def dict_get_def truthy_str_def Let_def)

lemma analyze_recent_push_data:
  obtains m where "analyze 86400 recent_push_data = Inr m"
    and "events_last_30d m = Some 1" and "events_30_90d m = Some 0"
proof -
  have parts:
    "profile_metrics 86400 (dict_get (data_profile recent_push_data) empty_profile) =
       Inr (empty_metrics
         \<lparr>username := Some ''unknown'', account_age_days := Some 0,
          account_age_years := Some 0, public_repos := Some 0, followers := Some 0,
          following := Some 0, has_blog := Some False, has_bio := Some False,
          hireable := Some False\<rparr>)"
    "repo_metrics 86400 (dict_get (data_repos recent_push_data) []) =
       Inr (empty_metrics
         \<lparr>total_repos := Some 0, total_stars := Some 0, total_forks_received := Some 0,
          total_watchers := Some 0, avg_repo_age_days := Some 0, languages := Some [],
          top_languages := Some ''N/A'', has_license_ratio := Some 0,
          forked_ratio := Some 0, original_repo_count := Some 0, language_count := Some 0\<rparr>)"
    "event_metrics 86400 (dict_get (data_events recent_push_data) []) =
       Inr (empty_metrics
         \<lparr>total_events := Some 1, push_events := Some 1, pr_events := Some 0,
          issue_events := Some 0, fork_events := Some 0, watch_events := Some 0,
          commit_count_90d := Some 2, active_days_90d := Some 1,
          events_last_30d := Some 1, events_30_90d := Some 0,
          most_active_period := Some ''Last 30 days (currently active)'',
          event_type_diversity := Some 1\<rparr>)"
    by (simp_all add: recent_push_data_def dict_get_def profile_metrics_empty_profile
        repo_metrics_Nil event_metrics_recent_push)
  then obtain m where m: "analyze 86400 recent_push_data = Inr m"
    using analyze_returns by blast
  then obtain em
    where "event_metrics 86400 (dict_get (data_events recent_push_data) []) = Inr em"
      and "events_last_30d m = events_last_30d em" "events_30_90d m = events_30_90d em"
    by (rule analyze_event_fields)
  with parts(3) have "events_last_30d m = Some 1" "events_30_90d m = Some 0"
    by auto
  with m show ?thesis
    using that by blast
qed

theorem momentum_ratio_formula_witness:
  "\<exists>m. analyze 86400 recent_push_data = Inr m
      \<and> events_30_90d m = Some 0 \<and> events_last_30d m = Some 1 \<and> momentum_ratio m = Some 1"
proof -
  obtain m where m: "analyze 86400 recent_push_data = Inr m"
    and n: "events_last_30d m = Some 1" "events_30_90d m = Some 0"
    by (rule analyze_recent_push_data)
  with momentum_ratio_formula [OF m] show ?thesis
    by auto
qed

section \<open>When \<open>analyze\<close> returns and when it raises\<close>

lemma days_since_returns:
  assumes "has_offset d"
  shows "\<exists>x. days_since now d = Inr x"
proof (cases d)
  case None
  then show ?thesis
    by (simp add: days_since_def parse_github_date_def truthy_date_def)
next
  case (Some s)
  with assms show ?thesis
    by (cases s)
      (simp_all add: days_since_def parse_github_date_def truthy_date_def has_offset_def
        fromisoformat_def seconds_since_def dict_get_def)
qed

lemma profile_metrics_returns:
  assumes "has_offset (profile_created_at profile)"
  shows "\<exists>pm. profile_metrics now profile = Inr pm"
proof -
  from assms obtain x where "days_since now (profile_created_at profile) = Inr x"
    using days_since_returns by blast
  then show ?thesis
    by (simp add: profile_metrics_def years_since_def)
qed

lemma repo_ages_returns:
  assumes "\<forall>r \<in> set repos. has_offset (repo_created_at r)"
  shows "\<exists>ages. repo_ages now repos = Inr ages"
  using assms
proof (induction repos)
  case Nil
  then show ?case by simp
next
  case (Cons r rs)
  then obtain ages where ages: "repo_ages now rs = Inr ages"
    by auto
  from Cons.prems obtain x where "days_since now (repo_created_at r) = Inr x"
    using days_since_returns by fastforce
  with ages show ?case
    by simp
qed

lemma repo_metrics_returns:
  assumes "\<forall>r \<in> set repos. has_offset (repo_created_at r)"
  shows "\<exists>rm. repo_metrics now repos = Inr rm"
proof -
  from assms obtain ages where "repo_ages now repos = Inr ages"
    using repo_ages_returns by blast
  then show ?thesis
    by (simp add: repo_metrics_def Let_def)
qed

lemma event_step_returns:
  assumes "has_offset (event_created_at event)"
  shows "\<exists>acc'. event_step now acc event = Inr acc'"
proof (cases "event_created_at event")
  case None
  then show ?thesis
    by (simp add: event_step_def dict_get_def fromisoformat_def)
next
  case (Some s)
  with assms show ?thesis
    by (cases s)
      (simp_all add: event_step_def dict_get_def fromisoformat_def has_offset_def
        seconds_since_def Let_def)
qed

lemma event_loop_returns:
  assumes "\<forall>e \<in> set events. has_offset (event_created_at e)"
  shows "\<exists>acc'. event_loop now acc events = Inr acc'"
  using assms
proof (induction events arbitrary: acc)
  case Nil
  then show ?case by simp
next
  case (Cons e es)
  then obtain acc1 where "event_step now acc e = Inr acc1"
    using event_step_returns by fastforce
  moreover from Cons obtain acc2 where "event_loop now acc1 es = Inr acc2"
    by fastforce
  ultimately show ?case
    by simp
qed

lemma event_metrics_returns:
  assumes "\<forall>e \<in> set events. has_offset (event_created_at e)"
  shows "\<exists>em. event_metrics now events = Inr em"
proof -
  from assms obtain acc where "event_loop now
       \<lparr>acc_commit_count_90d = 0, acc_active_days_set = {},
        acc_events_last_30d = 0, acc_events_30_90d = 0\<rparr> events = Inr acc"
    using event_loop_returns by blast
  then show ?thesis
    by (simp add: event_metrics_def Let_def)
qed

text \<open>
  \<open>analyze\<close> returns a metrics dictionary whenever no \<open>created_at\<close> of the input is a
  timestamp without UTC offset: absent, empty and unparsable dates are tolerated.
\<close>

lemma analyze_returns_without_offsetless:
  assumes "has_offset (profile_created_at (dict_get (data_profile raw) empty_profile))"
    and "\<forall>r \<in> set (dict_get (data_repos raw) []). has_offset (repo_created_at r)"
    and "\<forall>e \<in> set (dict_get (data_events raw) []). has_offset (event_created_at e)"
  shows "\<exists>m. analyze now raw = Inr m"
  using profile_metrics_returns [OF assms(1)] repo_metrics_returns [OF assms(2)]
    event_metrics_returns [OF assms(3)] analyze_returns
  by blast

text \<open>The events of the test \<^verbatim>\<open>test_no_crash_on_malformed_events\<close> are tolerated.\<close>

lemma analyze_malformed_events:
  "\<exists>m. analyze now \<lparr>data_profile = Some empty_profile, data_repos = Some [],
                      data_events = Some malformed_events\<rparr> = Inr m"
  by (rule analyze_returns_without_offsetless)
    (simp_all add: dict_get_def empty_profile_def malformed_events_def has_offset_def)

text \<open>
  Claim C2 at a failing input. A push event whose \<^verbatim>\<open>created_at\<close> is a timestamp without
  UTC offset (such as \<^verbatim>\<open>"2026-02-01T00:00:00"\<close>) parses to a naive datetime, and the
  subtraction \<^verbatim>\<open>now - dt\<close>, which stands after the \<^verbatim>\<open>try\<close> block, raises TypeError:
  \<open>analyze\<close> raises instead of skipping the event.
\<close>

theorem analyze_raises_on_offsetless_timestamp:
  "analyze now offsetless_event_data = Inl TypeError"
proof -
  have "event_metrics now [offsetless_event] = Inl TypeError"
    by (simp add: event_metrics_def offsetless_event_def event_step_def dict_get_def
        fromisoformat_def seconds_since_def Let_def)
  then show ?thesis
    by (simp add: analyze_def offsetless_event_data_def dict_get_def Let_def
        profile_metrics_empty_profile repo_metrics_Nil)
qed

section \<open>The most active period\<close>

lemma event_metrics_period:
  assumes "events \<noteq> []" and "event_metrics now events = Inr em"
  shows "\<exists>n30 n90 :: nat. events_last_30d em = Some (real n30)
           \<and> events_30_90d em = Some (real n90)
           \<and> most_active_period em =
               Some (if n30 > n90 then ''Last 30 days (currently active)''
                     else if n90 > 0 then ''30'' @ EN_DASH @ ''90 days ago''
                     else ''More than 90 days ago'')"
proof -
  let ?init = "\<lparr>acc_commit_count_90d = 0, acc_active_days_set = {},
                acc_events_last_30d = 0, acc_events_30_90d = 0\<rparr>"
  from assms obtain acc where loop: "event_loop now ?init events = Inr acc"
    unfolding event_metrics_def Let_def by (auto simp: ebind_eq_Inr)
  from assms loop have "events_last_30d em = Some (real (acc_events_last_30d acc))"
    unfolding event_metrics_def Let_def by auto
  moreover from assms loop have "events_30_90d em = Some (real (acc_events_30_90d acc))"
    unfolding event_metrics_def Let_def by auto
  moreover from assms loop have "most_active_period em =
       Some (if acc_events_last_30d acc > acc_events_30_90d acc
             then ''Last 30 days (currently active)''
             else if acc_events_30_90d acc > 0 then ''30'' @ EN_DASH @ ''90 days ago''
             else ''More than 90 days ago'')"
    unfolding event_metrics_def Let_def by auto
  ultimately show ?thesis
    by blast
qed

text \<open>
  Claim C5, as stated, fails on the empty events list: both counters are 0, so the stated
  derivation gives "More than 90 days ago", but \<open>event_metrics\<close> returns "N/A".
\<close>

theorem most_active_period_empty_events:
  "map_sum id events_last_30d (event_metrics 0 []) = Inr (Some 0)
   \<and> map_sum id events_30_90d (event_metrics 0 []) = Inr (Some 0)
   \<and> map_sum id most_active_period (event_metrics 0 []) = Inr (Some ''N/A'')
   \<and> map_sum id most_active_period (event_metrics 0 []) \<noteq> Inr (Some ''More than 90 days ago'')"
  by (simp add: event_metrics_Nil)

text \<open>
  Claim C5, amended. For every non-empty events list, in the metrics dictionary that
  \<open>analyze\<close> returns, \<open>most_active_period\<close> is "Last 30 days (currently active)" if
  \<open>events_last_30d > events_30_90d\<close>, else "30-90 days ago" (written with an en dash) if
  \<open>events_30_90d > 0\<close>, else "More than 90 days ago".
\<close>

theorem most_active_period_derivation:
  assumes "dict_get (data_events raw) [] \<noteq> []" and "analyze now raw = Inr m"
  shows "\<exists>n30 n90. events_last_30d m = Some n30 \<and> events_30_90d m = Some n90
           \<and> most_active_period m =
               Some (if n30 > n90 then ''Last 30 days (currently active)''
                     else if n90 > 0 then ''30'' @ EN_DASH @ ''90 days ago''
                     else ''More than 90 days ago'')"
proof -
  from assms(2) obtain em where em: "event_metrics now (dict_get (data_events raw) []) = Inr em"
    and eq: "events_last_30d m = events_last_30d em" "events_30_90d m = events_30_90d em"
      "most_active_period m = most_active_period em"
    by (rule analyze_event_fields)
  from event_metrics_period [OF assms(1) em] obtain n30 n90 :: nat
    where "events_last_30d em = Some (real n30)" "events_30_90d em = Some (real n90)"
      "most_active_period em =
               Some (if n30 > n90 then ''Last 30 days (currently active)''
                     else if n90 > 0 then ''30'' @ EN_DASH @ ''90 days ago''
                     else ''More than 90 days ago'')"
    by blast
  then show ?thesis
    unfolding eq by (intro exI [of _ "real n30"] exI [of _ "real n90"]) simp
qed

theorem most_active_period_derivation_witness:
  "dict_get (data_events recent_push_data) [] \<noteq> []
   \<and> (\<exists>m. analyze 86400 recent_push_data = Inr m
        \<and> most_active_period m = Some ''Last 30 days (currently active)'')"
proof -
  obtain m where m: "analyze 86400 recent_push_data = Inr m"
    and n: "events_last_30d m = Some 1" "events_30_90d m = Some 0"
    by (rule analyze_recent_push_data)
  have ne: "dict_get (data_events recent_push_data) [] \<noteq> []"
    by (simp add: recent_push_data_def dict_get_def)
  with m n most_active_period_derivation [OF ne m] show ?thesis
    by auto
qed

section \<open>The average repository age\<close>

lemma days_since_Inr:
  assumes "days_since now d = Inr x"
  shows "x = days_since_creation now d"
proof (cases d)
  case None
  with assms show ?thesis
    by (simp add: days_since_def parse_github_date_def truthy_date_def days_since_creation_def)
next
  case (Some s)
  with assms show ?thesis
    by (cases s)
      (simp_all add: days_since_def parse_github_date_def truthy_date_def
        days_since_creation_def fromisoformat_def seconds_since_def dict_get_def)
qed

lemma repo_ages_Inr:
  assumes "repo_ages now repos = Inr ages"
  shows "ages = map (\<lambda>r. days_since_creation now (repo_created_at r))
                  (filter (\<lambda>r. truthy_date (repo_created_at r)) repos)"
  using assms
proof (induction repos arbitrary: ages)
  case Nil
  then show ?case by simp
next
  case (Cons r rs)
  show ?case
  proof (cases "truthy_date (repo_created_at r)")
    case True
    with Cons.prems obtain x xs where x: "days_since now (repo_created_at r) = Inr x"
      and xs: "repo_ages now rs = Inr xs" and ages: "ages = x # xs"
      by (auto simp: ebind_eq_Inr)
    from x have "x = days_since_creation now (repo_created_at r)"
      by (rule days_since_Inr)
    with Cons.IH [OF xs] ages True show ?thesis
      by simp
  next
    case False
    with Cons show ?thesis
      by simp
  qed
qed

lemma repo_metrics_avg:
  assumes "repo_metrics now repos = Inr rm"
  shows "avg_repo_age_days rm = Some (dated_avg_repo_age_days now repos)"
proof (cases "repos = []")
  case True
  with assms show ?thesis
    by (auto simp: repo_metrics_Nil dated_avg_repo_age_days_def mean_def)
next
  case False
  with assms obtain ages where ages: "repo_ages now repos = Inr ages"
    unfolding repo_metrics_def Let_def by (auto simp: ebind_eq_Inr)
  with assms False have "avg_repo_age_days rm = Some (mean ages)"
    unfolding repo_metrics_def Let_def by (auto simp: mean_def)
  with repo_ages_Inr [OF ages] show ?thesis
    by (simp add: dated_avg_repo_age_days_def)
qed

lemma dated_eq_spec:
  assumes "\<forall>r \<in> set repos. truthy_date (repo_created_at r) \<longrightarrow> parsable (repo_created_at r)"
  shows "dated_avg_repo_age_days now repos = spec_avg_repo_age_days now repos"
proof -
  have "filter (\<lambda>r. truthy_date (repo_created_at r)) repos
      = filter (\<lambda>r. parsable (repo_created_at r)) repos"
    using assms
    by (intro filter_cong refl)
      (auto simp: parsable_def truthy_date_def fromisoformat_def
        split: option.splits date_str.splits)
  then show ?thesis
    by (simp add: dated_avg_repo_age_days_def spec_avg_repo_age_days_def)
qed

text \<open>
  Claim C4, as stated, fails: with one repository whose \<^verbatim>\<open>created_at\<close> is not empty and
  does not parse, and one created ten days ago, the code averages 0 and 10 to 5, while the
  mean over the repositories with a parsable date is 10.
\<close>

theorem avg_repo_age_days_counts_unparsable:
  "map_sum id avg_repo_age_days
     (repo_metrics 864000 [repo_created (Some Garbage), repo_created (Some (AwareStamp 0 0))])
     = Inr (Some 5)
   \<and> spec_avg_repo_age_days 864000
       [repo_created (Some Garbage), repo_created (Some (AwareStamp 0 0))] = 10"
  by (simp add: repo_metrics_def repo_created_def Let_def days_since_def
      parse_github_date_def truthy_date_def fromisoformat_def seconds_since_def dict_get_def
      spec_avg_repo_age_days_def parsable_def days_since_creation_def mean_def)

lemma dated_avg_none_parsable:
  assumes "\<forall>r \<in> set repos. \<not> parsable (repo_created_at r)"
  shows "dated_avg_repo_age_days now repos = 0"
proof -
  have "days_since_creation now (repo_created_at r) = 0" if "r \<in> set repos" for r
    using assms that
    by (auto simp: parsable_def days_since_creation_def fromisoformat_def
        split: option.splits date_str.splits)
  then have "sum_list (map (\<lambda>r. days_since_creation now (repo_created_at r))
               (filter (\<lambda>r. truthy_date (repo_created_at r)) repos)) = 0"
    by (induction repos) auto
  then show ?thesis
    by (simp add: dated_avg_repo_age_days_def mean_def)
qed

text \<open>
  Claim C4, amended. In every metrics dictionary that \<open>analyze\<close> returns,
  \<open>avg_repo_age_days\<close> is the mean of the days since creation over the repositories with a
  non-empty \<^verbatim>\<open>created_at\<close>, one that does not parse counting as 0 days. When every
  non-empty \<^verbatim>\<open>created_at\<close> parses, this is the mean over exactly the repositories with a
  parsable \<^verbatim>\<open>created_at\<close>; when no repository has a parsable \<^verbatim>\<open>created_at\<close>, it is 0.
\<close>

theorem avg_repo_age_days_mean:
  assumes "analyze now raw = Inr m"
  shows "avg_repo_age_days m = Some (dated_avg_repo_age_days now (dict_get (data_repos raw) []))
    \<and> ((\<forall>r \<in> set (dict_get (data_repos raw) []).
          truthy_date (repo_created_at r) \<longrightarrow> parsable (repo_created_at r)) \<longrightarrow>
        avg_repo_age_days m = Some (spec_avg_repo_age_days now (dict_get (data_repos raw) [])))
    \<and> ((\<forall>r \<in> set (dict_get (data_repos raw) []). \<not> parsable (repo_created_at r)) \<longrightarrow>
        avg_repo_age_days m = Some 0)"
proof -
  from assms obtain rm where rm: "repo_metrics now (dict_get (data_repos raw) []) = Inr rm"
    and eq: "avg_repo_age_days m = avg_repo_age_days rm"
    by (rule analyze_repo_fields)
  from repo_metrics_avg [OF rm] eq
  have "avg_repo_age_days m = Some (dated_avg_repo_age_days now (dict_get (data_repos raw) []))"
    by simp
  then show ?thesis
    using dated_eq_spec dated_avg_none_parsable by simp
qed

theorem avg_repo_age_days_mean_witness:
  "\<exists>m. analyze 864000 dated_repo_data = Inr m
      \<and> (\<forall>r \<in> set (dict_get (data_repos dated_repo_data) []).
            truthy_date (repo_created_at r) \<longrightarrow> parsable (repo_created_at r))
      \<and> avg_repo_age_days m = Some 10"
proof -
  have "\<exists>m. analyze 864000 dated_repo_data = Inr m"
    by (rule analyze_returns_without_offsetless)
      (simp_all add: dated_repo_data_def repo_created_def dict_get_def empty_profile_def
        has_offset_def)
  then obtain m where m: "analyze 864000 dated_repo_data = Inr m"
    by blast
  have p: "\<forall>r \<in> set (dict_get (data_repos dated_repo_data) []).
            truthy_date (repo_created_at r) \<longrightarrow> parsable (repo_created_at r)"
    by (simp add: dated_repo_data_def repo_created_def dict_get_def truthy_date_def
        parsable_def fromisoformat_def)
  have "spec_avg_repo_age_days 864000 (dict_get (data_repos dated_repo_data) []) = 10"
    by (simp add: dated_repo_data_def repo_created_def dict_get_def spec_avg_repo_age_days_def
        parsable_def fromisoformat_def days_since_creation_def mean_def)
  with m p avg_repo_age_days_mean [OF m] show ?thesis
    by auto
qed

section \<open>The language ranking\<close>

subsection \<open>The counter\<close>

lemma counter_add_keys:
  "map fst (counter_add acc k) =
     (if k \<in> set (map fst acc) then map fst acc else map fst acc @ [k])"
  by (induction acc k rule: counter_add.induct) auto

lemma counter_add_map_of:
  "map_of (counter_add acc k) =
     (map_of acc)(k \<mapsto> (case map_of acc k of None \<Rightarrow> 1 | Some c \<Rightarrow> c + 1))"
  by (induction acc k rule: counter_add.induct) (auto simp: fun_eq_iff)

lemma Counter_snoc: "Counter (xs @ [x]) = counter_add (Counter xs) x"
  by (simp add: Counter_def)

lemma set_first_seen [simp]: "set (first_seen xs) = set xs"
  by (induction xs) auto

lemma distinct_first_seen [simp]: "distinct (first_seen xs)"
  by (induction xs) (auto simp: distinct_removeAll)

lemma first_seen_snoc:
  "first_seen (xs @ [x]) = (if x \<in> set xs then first_seen xs else first_seen xs @ [x])"
  by (induction xs) auto

lemma Counter_keys: "map fst (Counter xs) = first_seen xs"
proof (induction xs rule: rev_induct)
  case Nil
  then show ?case by (simp add: Counter_def)
next
  case (snoc x xs)
  have "set (map fst (Counter xs)) = set xs"
    by (simp add: snoc.IH)
  then show ?case
    by (simp add: Counter_snoc counter_add_keys first_seen_snoc snoc.IH)
qed

lemma Counter_map_of:
  "map_of (Counter xs) l = (if l \<in> set xs then Some (count_list xs l) else None)"
proof (induction xs arbitrary: l rule: rev_induct)
  case Nil
  then show ?case by (simp add: Counter_def)
next
  case (snoc x xs)
  have "x \<notin> set xs \<Longrightarrow> count_list xs x = 0"
    by (simp add: count_list_0_iff)
  then show ?case
    by (simp add: Counter_snoc counter_add_map_of snoc.IH)
qed

lemma Counter_counts:
  assumes "item \<in> set (Counter xs)"
  shows "snd item = count_list xs (fst item)" and "fst item \<in> set xs"
proof -
  obtain l c where item: "item = (l, c)"
    by (cases item)
  have "distinct (map fst (Counter xs))"
    by (simp add: Counter_keys)
  with assms item have "map_of (Counter xs) l = Some c"
    by simp
  then have "l \<in> set xs \<and> c = count_list xs l"
    by (simp add: Counter_map_of split: if_splits)
  with item show "snd item = count_list xs (fst item)" and "fst item \<in> set xs"
    by simp_all
qed

subsection \<open>Stable sorting\<close>

lemma insort_key_stable:
  assumes "sorted_wrt (\<lambda>a b. h a < h b \<or> (h a = h b \<and> Q a b)) ys"
    and "\<forall>y \<in> set ys. Q x y"
  shows "sorted_wrt (\<lambda>a b. h a < h b \<or> (h a = h b \<and> Q a b)) (insort_key h x ys)"
  using assms
proof (induction ys)
  case Nil
  then show ?case by simp
next
  case (Cons y ys)
  show ?case
  proof (cases "h x \<le> h y")
    case True
    have "h x < h z \<or> (h x = h z \<and> Q x z)" if "z \<in> set (y # ys)" for z
    proof -
      from that Cons.prems(1) have "h y \<le> h z"
        by auto
      with True have "h x \<le> h z"
        by simp
      moreover from that Cons.prems(2) have "Q x z"
        by auto
      ultimately show ?thesis
        by auto
    qed
    with True Cons.prems(1) show ?thesis
      by simp
  next
    case False
    with Cons show ?thesis
      by (auto simp: set_insort_key)
  qed
qed

lemma sort_key_keeps_order:
  assumes "sorted_wrt Q ks"
  shows "sorted_wrt (\<lambda>a b. h a < h b \<or> (h a = h b \<and> Q a b)) (sort_key h ks)"
  using assms
proof (induction ks)
  case Nil
  then show ?case by simp
next
  case (Cons k ks)
  then show ?case
    by (auto intro: insort_key_stable)
qed

lemma first_seen_order:
  "sorted_wrt (\<lambda>a b. first_index xs a < first_index xs b) (first_seen xs)"
proof (induction xs)
  case Nil
  then show ?case by simp
next
  case (Cons x xs)
  have "sorted_wrt (\<lambda>a b. first_index xs a < first_index xs b) (removeAll x (first_seen xs))"
    using Cons.IH by (simp add: removeAll_filter_not_eq sorted_wrt_filter)
  then have "sorted_wrt (\<lambda>a b. first_index (x # xs) a < first_index (x # xs) b)
               (removeAll x (first_seen xs))"
    by (rule sorted_wrt_mono_rel [rotated]) auto
  then show ?case
    by auto
qed

subsection \<open>The ranked languages\<close>

lemma counted_languages_code:
  "map (\<lambda>r. dict_get (repo_language r) []) (filter (\<lambda>r. truthy_str (repo_language r)) repos)
     = counted_languages repos"
  by (induction repos)
    (auto simp: counted_languages_def truthy_str_def dict_get_def split: option.splits)

lemma most_common_Counter:
  fixes ls :: "string list"
  defines "ranked \<equiv> map fst (most_common (Counter ls))"
  shows "set ranked = set ls" and "distinct ranked" and "sorted_wrt (ranks_before ls) ranked"
proof -
  let ?h = "\<lambda>item :: string \<times> nat. - int (snd item)"
  let ?Q = "\<lambda>a b :: string \<times> nat. first_index ls (fst a) < first_index ls (fst b)"
  have keys: "map fst (Counter ls) = first_seen ls"
    by (rule Counter_keys)
  have "set ranked = set (map fst (Counter ls))"
    by (simp add: ranked_def most_common_def)
  then show "set ranked = set ls"
    by (simp add: keys)
  have "distinct (map fst (Counter ls))"
    by (simp add: keys)
  then have "distinct (Counter ls)" and "inj_on fst (set (Counter ls))"
    by (simp_all add: distinct_map)
  then show "distinct ranked"
    by (simp add: ranked_def most_common_def distinct_map)
  have "sorted_wrt ?Q (Counter ls)"
    using first_seen_order [of ls] by (simp add: sorted_wrt_map flip: keys)
  then have "sorted_wrt (\<lambda>a b. ?h a < ?h b \<or> (?h a = ?h b \<and> ?Q a b)) (sort_key ?h (Counter ls))"
    by (rule sort_key_keeps_order)
  then have "sorted_wrt (\<lambda>a b. ranks_before ls (fst a) (fst b)) (sort_key ?h (Counter ls))"
  proof (rule sorted_wrt_mono_rel [rotated])
    fix a b
    assume "a \<in> set (sort_key ?h (Counter ls))" and "b \<in> set (sort_key ?h (Counter ls))"
      and ord: "?h a < ?h b \<or> (?h a = ?h b \<and> ?Q a b)"
    then have "snd a = count_list ls (fst a)" and "snd b = count_list ls (fst b)"
      by (simp_all add: Counter_counts)
    with ord show "ranks_before ls (fst a) (fst b)"
      by (auto simp: ranks_before_def)
  qed
  then show "sorted_wrt (ranks_before ls) ranked"
    by (simp add: ranked_def most_common_def sorted_wrt_map)
qed

lemma repo_metrics_languages:
  assumes "repo_metrics now repos = Inr rm"
  shows "languages rm = Some (map fst (most_common (Counter (counted_languages repos))))"
    and "top_languages rm =
           Some (if map fst (most_common (Counter (counted_languages repos))) = [] then ''N/A''
                 else join '', '' (take 5 (map fst (most_common (Counter (counted_languages repos))))))"
proof -
  have "languages rm = Some (map fst (most_common (Counter (counted_languages repos))))
    \<and> top_languages rm =
           Some (if map fst (most_common (Counter (counted_languages repos))) = [] then ''N/A''
                 else join '', '' (take 5 (map fst (most_common (Counter (counted_languages repos))))))"
  proof (cases "repos = []")
    case True
    with assms show ?thesis
      by (auto simp: repo_metrics_Nil counted_languages_def Counter_def most_common_def)
  next
    case False
    with assms show ?thesis
      unfolding repo_metrics_def Let_def counted_languages_code
      by (auto simp: ebind_eq_Inr)
  qed
  then show "languages rm = Some (map fst (most_common (Counter (counted_languages repos))))"
    and "top_languages rm =
           Some (if map fst (most_common (Counter (counted_languages repos))) = [] then ''N/A''
                 else join '', '' (take 5 (map fst (most_common (Counter (counted_languages repos))))))"
    by simp_all
qed

text \<open>
  Claim C8, as stated, fails: a repository whose language is the empty string has a
  non-null language value, yet it is not counted, and \<open>top_languages\<close> is "N/A".
\<close>

theorem top_languages_skips_empty_string:
  "non_null_languages [repo_with_language (Some '''')] = ['''']
   \<and> map_sum id languages (repo_metrics 0 [repo_with_language (Some '''')]) = Inr (Some [])
   \<and> map_sum id top_languages (repo_metrics 0 [repo_with_language (Some '''')])
       = Inr (Some ''N/A'')"
  by (simp add: non_null_languages_def repo_with_language_def repo_metrics_def Let_def
      truthy_str_def truthy_date_def Counter_def most_common_def)

text \<open>
  Claim C8, amended. In every metrics dictionary that \<open>analyze\<close> returns, \<open>languages\<close>
  lists each language value that is neither null nor the empty string exactly once, a
  language counted more often before one counted less often and, among equal counts, the
  one met first before the other; \<open>top_languages\<close> is the first five of them joined by
  ", ", and "N/A" when there is none.
\<close>

theorem top_languages_ranking:
  assumes "analyze now raw = Inr m"
  shows "\<exists>ranked. languages m = Some ranked
           \<and> set ranked = set (counted_languages (dict_get (data_repos raw) []))
           \<and> distinct ranked
           \<and> sorted_wrt (ranks_before (counted_languages (dict_get (data_repos raw) []))) ranked
           \<and> top_languages m =
               Some (if ranked = [] then ''N/A'' else join '', '' (take 5 ranked))"
proof -
  from assms obtain rm where rm: "repo_metrics now (dict_get (data_repos raw) []) = Inr rm"
    and eq: "languages m = languages rm" "top_languages m = top_languages rm"
    by (rule analyze_repo_fields)
  show ?thesis
    unfolding eq
    using repo_metrics_languages [OF rm]
      most_common_Counter [of "counted_languages (dict_get (data_repos raw) [])"]
    by blast
qed

lemma counted_languages_language_data:
  "counted_languages (dict_get (data_repos language_data) [])
     = [''Go'', ''Python'', ''Python'', ''C'', ''Go'']"
  by (simp add: language_data_def repo_with_language_def dict_get_def counted_languages_def)

theorem top_languages_ranking_witness:
  "\<exists>m ranked. analyze 0 language_data = Inr m \<and> languages m = Some ranked
      \<and> set ranked = set [''Go'', ''Python'', ''Python'', ''C'', ''Go''] \<and> distinct ranked
      \<and> sorted_wrt (ranks_before [''Go'', ''Python'', ''Python'', ''C'', ''Go'']) ranked
      \<and> top_languages m = Some (if ranked = [] then ''N/A'' else join '', '' (take 5 ranked))"
proof -
  have "\<exists>m. analyze 0 language_data = Inr m"
    by (rule analyze_returns_without_offsetless)
      (simp_all add: language_data_def repo_with_language_def dict_get_def empty_profile_def
        has_offset_def)
  then obtain m where m: "analyze 0 language_data = Inr m"
    by blast
  from top_languages_ranking [OF m] obtain ranked
    where "languages m = Some ranked"
      and "set ranked = set (counted_languages (dict_get (data_repos language_data) []))"
      and "distinct ranked"
      and "sorted_wrt (ranks_before (counted_languages (dict_get (data_repos language_data) [])))
             ranked"
      and "top_languages m = Some (if ranked = [] then ''N/A'' else join '', '' (take 5 ranked))"
    by blast
  with m show ?thesis
    unfolding counted_languages_language_data by blast
qed

text \<open>
  The same input evaluated: Go and Python both occur twice and Go was met first.
\<close>

lemma repo_metrics_language_data:
  "map_sum id top_languages (repo_metrics 0 (dict_get (data_repos language_data) []))
     = Inr (Some ''Go, Python, C'')"
  by (simp add: language_data_def repo_with_language_def dict_get_def repo_metrics_def Let_def
      truthy_str_def truthy_date_def Counter_def most_common_def)

section \<open>The openness score\<close>

lemma repo_metrics_ratios:
  assumes "repo_metrics now repos = Inr rm"
  shows "\<exists>lic frk. has_license_ratio rm = Some lic \<and> forked_ratio rm = Some frk
           \<and> 0 \<le> lic \<and> lic \<le> 1 \<and> 0 \<le> frk \<and> frk \<le> 1"
proof (cases "repos = []")
  case True
  with assms show ?thesis
    by (auto simp: repo_metrics_Nil)
next
  case False
  have count: "sum_list (map (\<lambda>r. Suc 0) xs) = length xs" for xs :: "raw_repo list"
    by (induction xs) simp_all
  have le: "length (filter P repos) \<le> length repos" for P
    by simp
  from assms False obtain ages where ages: "repo_ages now repos = Inr ages"
    unfolding repo_metrics_def Let_def by (auto simp: ebind_eq_Inr)
  from assms False ages
  have "has_license_ratio rm =
          Some (real (length (filter (\<lambda>r. truthy_obj (repo_license r)) repos))
                / real (length repos))"
    unfolding repo_metrics_def Let_def by (auto simp: safe_divide_def count)
  moreover from assms False ages
  have "forked_ratio rm =
          Some (real (length (filter (\<lambda>r. truthy_bool (repo_fork r)) repos))
                / real (length repos))"
    unfolding repo_metrics_def Let_def by (auto simp: safe_divide_def)
  moreover have "real (length (filter P repos)) / real (length repos) \<le> 1" for P
    using False le [of P] by (simp add: divide_le_eq_1)
  ultimately show ?thesis
    by simp
qed

lemma analyze_ratios:
  assumes "analyze now raw = Inr m"
  shows "dict_get (has_license_ratio m) 0 \<le> 1" and "dict_get (forked_ratio m) 0 \<le> 1"
proof -
  from assms obtain rm where rm: "repo_metrics now (dict_get (data_repos raw) []) = Inr rm"
    and eq: "has_license_ratio m = has_license_ratio rm" "forked_ratio m = forked_ratio rm"
    by (rule analyze_repo_fields)
  from repo_metrics_ratios [OF rm] eq
  show "dict_get (has_license_ratio m) 0 \<le> 1" and "dict_get (forked_ratio m) 0 \<le> 1"
    by (auto simp: dict_get_def)
qed

text \<open>
  Claim C10. A Metrics is a dictionary that \<open>analyze\<close> returns, and its
  \<open>has_license_ratio\<close> and \<open>forked_ratio\<close> are fractions of the repositories, at most 1.
  For every such dictionary, and for every dictionary at all whose two ratios are at most
  1 (an absent key counts as 0), the openness score is at most
  \<open>100 * 0.40 + 50 * 0.30 + 50 * 0.30 = 70\<close>, so it never reaches the full range up to 100.
\<close>

theorem score_openness_le_70:
  "(dict_get (has_license_ratio m) 0 \<le> 1 \<and> dict_get (forked_ratio m) 0 \<le> 1 \<longrightarrow>
      score_openness m \<le> 70)
   \<and> (analyze now raw = Inr m \<longrightarrow> score_openness m \<le> 70)"
proof -
  have bound: "score_openness m \<le> 70"
    if "dict_get (has_license_ratio m) 0 \<le> 1" and "dict_get (forked_ratio m) 0 \<le> 1"
    using that by (simp add: score_openness_def Let_def clamp_def)
  then show ?thesis
    using analyze_ratios by blast
qed

theorem score_openness_le_70_witness:
  "dict_get (has_license_ratio
       (empty_metrics\<lparr>has_license_ratio := Some 1, forked_ratio := Some 1,
          has_blog := Some True, has_bio := Some True\<rparr>)) 0 \<le> 1
   \<and> dict_get (forked_ratio
       (empty_metrics\<lparr>has_license_ratio := Some 1, forked_ratio := Some 1,
          has_blog := Some True, has_bio := Some True\<rparr>)) 0 \<le> 1
   \<and> score_openness
       (empty_metrics\<lparr>has_license_ratio := Some 1, forked_ratio := Some 1,
          has_blog := Some True, has_bio := Some True\<rparr>) \<le> 70
   \<and> (\<exists>m. analyze 0 empty_raw_data = Inr m \<and> score_openness m \<le> 70)"
proof -
  obtain m where m: "analyze 0 empty_raw_data = Inr m"
    using analyze_empty_raw_data by blast
  show ?thesis
    using score_openness_le_70 [of "empty_metrics\<lparr>has_license_ratio := Some 1,
          forked_ratio := Some 1, has_blog := Some True, has_bio := Some True\<rparr>"]
      score_openness_le_70 [of m 0 empty_raw_data] m
    by (simp add: dict_get_def)
qed

text \<open>The bound is reached: full ratios with a blog and a bio score exactly 70.\<close>

lemma score_openness_reaches_70:
  "score_openness (empty_metrics\<lparr>has_license_ratio := Some 1, forked_ratio := Some 1,
          has_blog := Some True, has_bio := Some True\<rparr>) = 70"
  by (simp add: score_openness_def empty_metrics_def dict_get_def truthy_bool_def clamp_def)

end
